theory Spec2Isabelle
  imports Main
begin

section \<open>The deferred payment scheme of x402 (src/python/x402/src/x402/deferred.py)\<close>

text \<open>
  Python values are modelled as follows. A \<open>str\<close> is a \<open>string\<close>, each character read
  as one code point in the range 0..255. A Python \<open>int\<close> is an \<open>int\<close>. A dictionary whose
  values have type \<open>Any\<close> (\<open>payment_requirements.extra\<close>, a payment header) is a
  \<open>json\<close> object: an association list in insertion order. A value of another Python type
  in such a dictionary (bytes, a \<open>HexBytes\<close>, a model, a set) is \<open>JOther r\<close>, where \<open>r\<close> says
  what the function \<open>default\<close> of \<open>encode_payment\<close> does with it: \<open>Some j\<close> when it returns
  \<open>j\<close> (the text of \<open>hex()\<close>, the dictionary of \<open>to_dict()\<close>), \<open>None\<close> when it raises
  TypeError. Every \<open>raise\<close> of the source is a value \<open>Inl e\<close> of the result type
  \<open>error + 'a\<close>.
\<close>

subsection \<open>Values and errors\<close>

datatype json =
    JNull
  | JBool bool
  | JInt int
  | JStr string
  | JArr "json list"
  | JObj "(string \<times> json) list"
  | JOther "json option"

text \<open>
  One constructor for each place where the source raises, named after the error taxonomy
  where the taxonomy has a name for it. The Python exception and message are:
  \<^item> \<open>MalformedRequirements None\<close>: ValueError "Payment requirements extra must contain
    'type' field" (line 39); \<open>MalformedRequirements (Some t)\<close>: ValueError "Unknown voucher
    type: t" (line 48);
  \<^item> \<open>InvalidNewVoucherExtra\<close>: ValueError "Invalid extra data for new voucher: ..."
    (line 69), raised for every extra payload that is not a well-formed seed of a new
    voucher; the taxonomy files it under \<open>MalformedRequirements\<close> when the payload is
    missing or has another type, and under \<open>InvalidVoucherSeed\<close> when the seed lacks a
    field;
  \<^item> \<open>InvalidAggregationExtra\<close>: ValueError "Invalid extra data for voucher aggregation: ..."
    (line 93);
  \<^item> \<open>InvalidSeller\<close>, \<open>InvalidAsset\<close>, \<open>InvalidChainId\<close>, \<open>VoucherExpired\<close>,
    \<open>VoucherTimestampInFuture\<close>, \<open>InvalidVoucherSignature\<close>: the ValueErrors of lines 100,
    102, 104, 106, 108 and 113;
  \<^item> \<open>InvalidAmount\<close>: the ValueError of \<open>int(s)\<close> on a string that is not an integer literal;
  \<^item> \<open>KeyError k\<close>, \<open>TypeError\<close>: a missing dictionary key, an operation on a value of the
    wrong type;
  \<^item> \<open>SignFailed e\<close>: Exception "Failed to sign payment header: e" (line 237);
  \<^item> \<open>DecodeFailure\<close>: what \<open>safe_base64_decode\<close> and \<open>json.loads\<close> raise;
  \<^item> \<open>OutsideModel\<close>: no exception of the source, but the mark of an input that the model
    does not cover (a floating-point number or a code point above 255 in a text to decode,
    nesting deeper than the text is long); nothing is claimed about the source there;
  \<^item> \<open>InvalidAddress\<close>, \<open>UnknownNetwork\<close>, \<open>InvalidSignatureFormat\<close>, \<open>SigningFailure\<close>,
    \<open>EncodingFailure\<close>: what the external collaborators raise.
\<close>

datatype error =
    MalformedRequirements "json option"
  | InvalidNewVoucherExtra
  | InvalidAggregationExtra
  | InvalidSeller
  | InvalidAsset
  | InvalidChainId
  | VoucherExpired
  | VoucherTimestampInFuture
  | InvalidVoucherSignature
  | InvalidAmount
  | KeyError string
  | TypeError
  | SignFailed error
  | DecodeFailure
  | OutsideModel
  | InvalidAddress
  | UnknownNetwork
  | InvalidSignatureFormat
  | SigningFailure
  | EncodingFailure

text \<open>Sequencing of two steps that may raise: the second runs only if the first returned.\<close>

definition bindE :: "error + 'a \<Rightarrow> ('a \<Rightarrow> error + 'b) \<Rightarrow> error + 'b" where
  "bindE r f = (case r of Inl e \<Rightarrow> Inl e | Inr x \<Rightarrow> f x)"

subsection \<open>Built-ins: \<open>str.lower\<close>, \<open>int(str)\<close>, \<open>str(int)\<close>\<close>

text \<open>
  \<open>s.lower()\<close>: among the code points below 256 the upper-case letters are \<open>A\<close> to \<open>Z\<close>
  (65 to 90) and the accented capitals 192 to 222 without the multiplication sign 215; the
  lower-case letter is 32 higher.
\<close>

definition lower_char :: "char \<Rightarrow> char" where
  "lower_char c =
     (let n = (of_char c :: nat) in
      if (65 \<le> n \<and> n \<le> 90) \<or> (192 \<le> n \<and> n \<le> 222 \<and> n \<noteq> 215) then char_of (n + 32)
      else c)"

definition py_lower :: "string \<Rightarrow> string" where
  "py_lower s = map lower_char s"

text \<open>
  \<open>int(s)\<close> for a string: white space is stripped at both ends, an optional sign follows,
  then decimal digits, where single underscores may stand between digits. Anything else
  raises ValueError. The interpreter's optional limit on the number of digits
  (\<open>sys.set_int_max_str_digits\<close>) is not part of the model.
\<close>

definition is_space :: "char \<Rightarrow> bool" where
  "is_space c = ((of_char c :: nat) \<in> {9, 10, 11, 12, 13, 32, 133, 160})"

definition is_digit :: "char \<Rightarrow> bool" where
  "is_digit c = (48 \<le> (of_char c :: nat) \<and> (of_char c :: nat) \<le> 57)"

definition digit_val :: "char \<Rightarrow> nat" where
  "digit_val c = of_char c - 48"

definition digit_char :: "nat \<Rightarrow> char" where
  "digit_char d = char_of (48 + d)"

definition strip :: "string \<Rightarrow> string" where
  "strip s = rev (dropWhile is_space (rev (dropWhile is_space s)))"

text \<open>
  The scan of the digits: \<open>prev\<close> is the character before the current one. An underscore
  is refused after an underscore and at the end; one at the start is refused by
  \<open>digits_ok\<close>, as is an empty string.
\<close>

fun scan_digits :: "char \<Rightarrow> string \<Rightarrow> bool" where
  "scan_digits prev [] = (prev \<noteq> CHR ''_'')"
| "scan_digits prev (c # cs) =
     (if c = CHR ''_'' then prev \<noteq> CHR ''_'' \<and> scan_digits c cs
      else is_digit c \<and> scan_digits c cs)"

definition digits_ok :: "string \<Rightarrow> bool" where
  "digits_ok s = (case s of [] \<Rightarrow> False | c # cs \<Rightarrow> is_digit c \<and> scan_digits c cs)"

definition digits_value :: "string \<Rightarrow> nat" where
  "digits_value s =
     foldl (\<lambda>acc c. if c = CHR ''_'' then acc else 10 * acc + digit_val c) 0 s"

definition py_int :: "string \<Rightarrow> error + int" where
  "py_int s =
     (case strip s of
        [] \<Rightarrow> Inl InvalidAmount
      | c # cs \<Rightarrow>
          if c = CHR ''-'' then
            (if digits_ok cs then Inr (- int (digits_value cs)) else Inl InvalidAmount)
          else if c = CHR ''+'' then
            (if digits_ok cs then Inr (int (digits_value cs)) else Inl InvalidAmount)
          else
            (if digits_ok (c # cs) then Inr (int (digits_value (c # cs)))
             else Inl InvalidAmount))"

text \<open>\<open>str(n)\<close> for an integer: the decimal digits, without leading zeros, after \<open>-\<close> when
  \<open>n\<close> is negative.\<close>

fun nat_digits :: "nat \<Rightarrow> string" where
  "nat_digits n =
     (if n < 10 then [digit_char n] else nat_digits (n div 10) @ [digit_char (n mod 10)])"

declare nat_digits.simps [simp del]

definition py_str :: "int \<Rightarrow> string" where
  "py_str n = (if n < 0 then CHR ''-'' # nat_digits (nat (- n)) else nat_digits (nat n))"

subsection \<open>The data model (x402.types)\<close>

text \<open>\<open>DeferredEvmPayloadVoucher\<close>, with the field names the source reads (\<open>voucher_id\<close> is
  the field \<open>id\<close>).\<close>

record voucher =
  voucher_id :: string
  buyer :: string
  seller :: string
  value_aggregate :: string
  asset :: string
  timestamp :: int
  nonce :: int
  escrow :: string
  chain_id :: int
  expiry :: int

text \<open>\<open>PaymentRequirements\<close>: the fields the source reads (\<open>req_asset\<close> is the field
  \<open>asset\<close>). \<open>extra\<close> is an optional dictionary.\<close>

record payment_requirements =
  network :: string
  max_amount_required :: string
  pay_to :: string
  req_asset :: string
  extra :: "(string \<times> json) list option"

subsection \<open>Dictionaries\<close>

definition lookup :: "(string \<times> json) list \<Rightarrow> string \<Rightarrow> json option" where
  "lookup d k = map_of d k"

text \<open>\<open>d[k]\<close>: KeyError when the key is absent.\<close>

definition dict_get :: "(string \<times> json) list \<Rightarrow> string \<Rightarrow> error + json" where
  "dict_get d k = (case lookup d k of None \<Rightarrow> Inl (KeyError k) | Some v \<Rightarrow> Inr v)"

text \<open>\<open>d[k] = v\<close>: an existing key keeps its place, a new key goes to the end.\<close>

fun dict_set :: "(string \<times> json) list \<Rightarrow> string \<Rightarrow> json \<Rightarrow> (string \<times> json) list" where
  "dict_set [] k v = [(k, v)]"
| "dict_set ((k', v') # d) k v = (if k' = k then (k, v) # d else (k', v') # dict_set d k v)"

definition as_str :: "json \<Rightarrow> error + string" where
  "as_str j = (case j of JStr s \<Rightarrow> Inr s | _ \<Rightarrow> Inl TypeError)"

definition as_obj :: "json \<Rightarrow> error + (string \<times> json) list" where
  "as_obj j = (case j of JObj d \<Rightarrow> Inr d | _ \<Rightarrow> Inl TypeError)"

definition get_str :: "(string \<times> json) list \<Rightarrow> string \<Rightarrow> string option" where
  "get_str d k = (case lookup d k of Some (JStr s) \<Rightarrow> Some s | _ \<Rightarrow> None)"

definition get_int :: "(string \<times> json) list \<Rightarrow> string \<Rightarrow> int option" where
  "get_int d k = (case lookup d k of Some (JInt n) \<Rightarrow> Some n | _ \<Rightarrow> None)"

subsection \<open>The models of x402.types\<close>

text \<open>
  Modelled from the spec: the validation done by \<open>DeferredEvmPayloadVoucher(**d)\<close>; the
  class is declared in x402/types.py, which is not among the source files. The spec's wire
  format gives the keys of a voucher object and their types: \<open>id\<close>, \<open>buyer\<close>, \<open>seller\<close>,
  \<open>valueAggregate\<close>, \<open>asset\<close> and \<open>escrow\<close> are strings, \<open>timestamp\<close>, \<open>nonce\<close>, \<open>chainId\<close>
  and \<open>expiry\<close> are integers. \<open>None\<close> is the validation error.
\<close>

definition voucher_of_dict :: "(string \<times> json) list \<Rightarrow> voucher option" where
  "voucher_of_dict d =
     Option.bind (get_str d ''id'') (\<lambda>i.
     Option.bind (get_str d ''buyer'') (\<lambda>b.
     Option.bind (get_str d ''seller'') (\<lambda>s.
     Option.bind (get_str d ''valueAggregate'') (\<lambda>va.
     Option.bind (get_str d ''asset'') (\<lambda>a.
     Option.bind (get_int d ''timestamp'') (\<lambda>ts.
     Option.bind (get_int d ''nonce'') (\<lambda>n.
     Option.bind (get_str d ''escrow'') (\<lambda>e.
     Option.bind (get_int d ''chainId'') (\<lambda>c.
     Option.bind (get_int d ''expiry'') (\<lambda>ex.
       Some \<lparr>voucher_id = i, buyer = b, seller = s, value_aggregate = va, asset = a,
             timestamp = ts, nonce = n, escrow = e, chain_id = c, expiry = ex\<rparr>))))))))))"

text \<open>
  Modelled from the spec: \<open>voucher.model_dump(by_alias=True)\<close> of the same class, the voucher
  object of the spec's wire format.
\<close>

definition model_dump :: "voucher \<Rightarrow> (string \<times> json) list" where
  "model_dump v =
     [(''id'', JStr (voucher_id v)), (''buyer'', JStr (buyer v)), (''seller'', JStr (seller v)),
      (''valueAggregate'', JStr (value_aggregate v)), (''asset'', JStr (asset v)),
      (''timestamp'', JInt (timestamp v)), (''nonce'', JInt (nonce v)),
      (''escrow'', JStr (escrow v)), (''chainId'', JInt (chain_id v)),
      (''expiry'', JInt (expiry v))]"

text \<open>
  Modelled from the spec: the validation done by
  \<open>DeferredPaymentRequirementsExtraNewVoucher(**extra)\<close> (x402/types.py, not among the source
  files). By the spec, the extra payload of a new voucher has \<open>type: "new"\<close> and a voucher
  seed with the fields \<open>id\<close> and \<open>escrow\<close>, and a seed that lacks one of them is refused.
  The result is the seed, the dictionary \<open>extra.voucher\<close>. \<open>None\<close> stands for every
  exception of the call, the TypeError of \<open>**None\<close> among them.
\<close>

definition parse_new_voucher_extra ::
  "(string \<times> json) list option \<Rightarrow> (string \<times> json) list option" where
  "parse_new_voucher_extra ex =
     (case ex of
        None \<Rightarrow> None
      | Some d \<Rightarrow>
          if lookup d ''type'' \<noteq> Some (JStr ''new'') then None
          else (case lookup d ''voucher'' of
                  Some (JObj vd) \<Rightarrow>
                    if get_str vd ''id'' = None \<or> get_str vd ''escrow'' = None then None
                    else Some vd
                | _ \<Rightarrow> None))"

text \<open>
  Modelled from the spec: the validation done by
  \<open>DeferredPaymentRequirementsExtraAggregationVoucher(**extra)\<close> (x402/types.py, not among
  the source files). By the spec, the extra payload of an aggregation has
  \<open>type: "aggregation"\<close>, a \<open>signature\<close> and the prior \<open>voucher\<close>. The result is the pair
  of \<open>extra.signature\<close> and \<open>extra.voucher\<close>.
\<close>

definition parse_aggregation_extra ::
  "(string \<times> json) list option \<Rightarrow> (string \<times> voucher) option" where
  "parse_aggregation_extra ex =
     (case ex of
        None \<Rightarrow> None
      | Some d \<Rightarrow>
          if lookup d ''type'' \<noteq> Some (JStr ''aggregation'') then None
          else (case (get_str d ''signature'', lookup d ''voucher'') of
                  (Some sg, Some (JObj vd)) \<Rightarrow>
                    (case voucher_of_dict vd of None \<Rightarrow> None | Some v \<Rightarrow> Some (sg, v))
                | _ \<Rightarrow> None))"

subsection \<open>The external collaborators\<close>

text \<open>
  The functions of other packages that the source calls, as parameters of the model:
  \<^item> \<open>to_checksum_address a\<close>: \<open>eth_utils.to_checksum_address(a)\<close>;
  \<^item> \<open>get_chain_id n\<close>: the value of \<open>int(get_chain_id(n))\<close> (x402.chains);
  \<^item> \<open>encode_typed_data dom tys msg\<close>:
    \<open>encode_typed_data(domain_data=dom, message_types=tys, message_data=msg)\<close>;
  \<^item> \<open>sign_message acct m\<close>: the value of \<open>acct.sign_message(m).signature.hex()\<close>;
  \<^item> \<open>recover_message m sg\<close>: \<open>Account.recover_message(m, signature=sg)\<close>.
  The clock is a function \<open>clk\<close>: \<open>clk k\<close> is the value of \<open>int(time.time())\<close> at the
  read number \<open>k\<close> of a call, counted from 0.
\<close>

record ('acct, 'msg) env =
  to_checksum_address :: "string \<Rightarrow> error + string"
  get_chain_id :: "string \<Rightarrow> error + int"
  encode_typed_data ::
    "(string \<times> json) list \<Rightarrow> (string \<times> (string \<times> string) list) list \<Rightarrow>
       (string \<times> json) list \<Rightarrow> error + 'msg"
  sign_message :: "'acct \<Rightarrow> 'msg \<Rightarrow> error + string"
  recover_message :: "'msg \<Rightarrow> string \<Rightarrow> error + string"

subsection \<open>Constants\<close>

definition EXPIRY_TIME :: int where
  "EXPIRY_TIME = 60 * 60 * 24 * 30"

definition DEFERRED_SCHEME :: string where
  "DEFERRED_SCHEME = ''deferred''"

subsection \<open>\<open>get_voucher_typed_data\<close>\<close>

text \<open>
  The dictionary the function returns. A field entry \<open>{"name": n, "type": t}\<close> is the
  pair \<open>(n, t)\<close>.
\<close>

record typed_data =
  types :: "(string \<times> (string \<times> string) list) list"
  primaryType :: string
  domain :: "(string \<times> json) list"
  message :: "(string \<times> json) list"

definition eip712_types :: "(string \<times> (string \<times> string) list) list" where
  "eip712_types =
     [(''EIP712Domain'',
         [(''name'', ''string''), (''version'', ''string''), (''chainId'', ''uint256''),
          (''verifyingContract'', ''address'')]),
      (''Voucher'',
         [(''id'', ''bytes32''), (''buyer'', ''address''), (''seller'', ''address''),
          (''valueAggregate'', ''uint256''), (''asset'', ''address''),
          (''timestamp'', ''uint64''), (''nonce'', ''uint256''), (''escrow'', ''address''),
          (''chainId'', ''uint256''), (''expiry'', ''uint64'')])]"

text \<open>The calls are made in the order of the dictionary display, and the first one that
  raises ends the function.\<close>

definition get_voucher_typed_data :: "('acct, 'msg) env \<Rightarrow> voucher \<Rightarrow> error + typed_data" where
  "get_voucher_typed_data E v =
     bindE (to_checksum_address E (escrow v)) (\<lambda>vc.
     bindE (to_checksum_address E (buyer v)) (\<lambda>b.
     bindE (to_checksum_address E (seller v)) (\<lambda>s.
     bindE (py_int (value_aggregate v)) (\<lambda>va.
     bindE (to_checksum_address E (asset v)) (\<lambda>a.
     bindE (to_checksum_address E (escrow v)) (\<lambda>e.
       Inr \<lparr>types = eip712_types,
            primaryType = ''Voucher'',
            domain =
              [(''name'', JStr ''DeferredPaymentEscrow''), (''version'', JStr ''1''),
               (''chainId'', JInt (chain_id v)), (''verifyingContract'', JStr vc)],
            message =
              [(''id'', JStr (voucher_id v)), (''buyer'', JStr b), (''seller'', JStr s),
               (''valueAggregate'', JInt va), (''asset'', JStr a),
               (''timestamp'', JInt (timestamp v)), (''nonce'', JInt (nonce v)),
               (''escrow'', JStr e), (''chainId'', JInt (chain_id v)),
               (''expiry'', JInt (expiry v))]\<rparr>))))))"

subsection \<open>\<open>sign_voucher\<close> and \<open>verify_voucher\<close>\<close>

text \<open>The dictionary comprehension of both functions: the types without \<open>EIP712Domain\<close>.\<close>

definition message_types ::
  "typed_data \<Rightarrow> (string \<times> (string \<times> string) list) list" where
  "message_types td = filter (\<lambda>kv. fst kv \<noteq> ''EIP712Domain'') (types td)"

definition signable_message :: "('acct, 'msg) env \<Rightarrow> voucher \<Rightarrow> error + 'msg" where
  "signable_message E v =
     bindE (get_voucher_typed_data E v) (\<lambda>td.
       encode_typed_data E (domain td) (message_types td) (message td))"

definition sign_voucher :: "('acct, 'msg) env \<Rightarrow> 'acct \<Rightarrow> voucher \<Rightarrow> error + string" where
  "sign_voucher E account v =
     bindE (signable_message E v) (\<lambda>m.
     bindE (sign_message E account m) (\<lambda>sg.
       Inr (if take 2 sg = ''0x'' then sg else ''0x'' @ sg)))"

definition verify_voucher ::
  "('acct, 'msg) env \<Rightarrow> voucher \<Rightarrow> string \<Rightarrow> string \<Rightarrow> error + bool" where
  "verify_voucher E v sg signer =
     bindE (signable_message E v) (\<lambda>m.
     bindE (recover_message E m sg) (\<lambda>recovered_address.
       Inr (py_lower recovered_address = py_lower signer)))"

subsection \<open>\<open>create_new_voucher\<close>\<close>

text \<open>
  The keyword arguments of the constructor are evaluated from left to right; the clock is
  read for \<open>timestamp\<close> and read again for \<open>expiry\<close>. The last step is the constructor's
  check that \<open>id\<close> is a string.
\<close>

definition create_new_voucher ::
  "('acct, 'msg) env \<Rightarrow> (nat \<Rightarrow> int) \<Rightarrow> string \<Rightarrow> payment_requirements \<Rightarrow> error + voucher" where
  "create_new_voucher E clk buyer_arg req =
     (case parse_new_voucher_extra (extra req) of
        None \<Rightarrow> Inl InvalidNewVoucherExtra
      | Some vd \<Rightarrow>
          bindE (dict_get vd ''id'') (\<lambda>i.
          bindE (to_checksum_address E buyer_arg) (\<lambda>b.
          bindE (to_checksum_address E (pay_to req)) (\<lambda>s.
          bindE (to_checksum_address E (req_asset req)) (\<lambda>a.
          bindE (dict_get vd ''escrow'') (\<lambda>e0.
          bindE (as_str e0) (\<lambda>e1.
          bindE (to_checksum_address E e1) (\<lambda>e.
          bindE (get_chain_id E (network req)) (\<lambda>c.
          bindE (as_str i) (\<lambda>i1.
            Inr \<lparr>voucher_id = i1, buyer = b, seller = s,
                 value_aggregate = max_amount_required req, asset = a,
                 timestamp = clk 0, nonce = 0, escrow = e, chain_id = c,
                 expiry = clk 1 + EXPIRY_TIME\<rparr>))))))))))"

subsection \<open>\<open>aggregate_voucher\<close>\<close>

definition aggregate_voucher ::
  "('acct, 'msg) env \<Rightarrow> (nat \<Rightarrow> int) \<Rightarrow> string \<Rightarrow> payment_requirements \<Rightarrow> error + voucher" where
  "aggregate_voucher E clk buyer_arg req =
     (case parse_aggregation_extra (extra req) of
        None \<Rightarrow> Inl InvalidAggregationExtra
      | Some (sg, v) \<Rightarrow>
          let now = clk 0 in
          if py_lower (pay_to req) \<noteq> py_lower (seller v) then Inl InvalidSeller
          else if py_lower (req_asset req) \<noteq> py_lower (asset v) then Inl InvalidAsset
          else
            bindE (get_chain_id E (network req)) (\<lambda>c.
              if c \<noteq> chain_id v then Inl InvalidChainId
              else if now > expiry v then Inl VoucherExpired
              else if now < timestamp v then Inl VoucherTimestampInFuture
              else
                bindE (verify_voucher E v sg buyer_arg) (\<lambda>is_valid.
                  if \<not> is_valid then Inl InvalidVoucherSignature
                  else
                    bindE (py_int (max_amount_required req)) (\<lambda>amount.
                    bindE (py_int (value_aggregate v)) (\<lambda>prior.
                    bindE (to_checksum_address E buyer_arg) (\<lambda>b.
                      Inr \<lparr>voucher_id = voucher_id v, buyer = b, seller = seller v,
                           value_aggregate = py_str (amount + prior), asset = asset v,
                           timestamp = now, nonce = nonce v + 1, escrow = escrow v,
                           chain_id = chain_id v, expiry = now + EXPIRY_TIME\<rparr>))))))"

subsection \<open>\<open>prepare_payment_header\<close>\<close>

definition prepare_payment_header ::
  "('acct, 'msg) env \<Rightarrow> (nat \<Rightarrow> int) \<Rightarrow> string \<Rightarrow> int \<Rightarrow> payment_requirements \<Rightarrow>
     error + (string \<times> json) list" where
  "prepare_payment_header E clk sender_address x402_version req =
     (case extra req of
        None \<Rightarrow> Inl (MalformedRequirements None)
      | Some d \<Rightarrow>
          (case (if d = [] then None else lookup d ''type'') of
             None \<Rightarrow> Inl (MalformedRequirements None)
           | Some extra_type \<Rightarrow>
               bindE
                 (if extra_type = JStr ''new'' then
                    create_new_voucher E clk sender_address req
                  else if extra_type = JStr ''aggregation'' then
                    aggregate_voucher E clk sender_address req
                  else Inl (MalformedRequirements (Some extra_type)))
                 (\<lambda>v.
                   Inr [(''x402Version'', JInt x402_version),
                        (''scheme'', JStr DEFERRED_SCHEME),
                        (''network'', JStr (network req)),
                        (''payload'',
                           JObj [(''signature'', JNull),
                                 (''voucher'', JObj (model_dump v))])])))"

subsection \<open>\<open>json.dumps\<close>\<close>

text \<open>
  The text \<open>json.dumps(obj, default=default)\<close> returns, with \<open>default\<close> the local function
  of \<open>encode_payment\<close> (lines 244 to 253): the separators are \<open>", "\<close> and \<open>": "\<close>, and a string
  is written between double quotes with every character outside the printable ASCII range,
  the double quote and the backslash escaped (\<open>ensure_ascii\<close>). For a value that is not
  \<open>None\<close>, a boolean, an integer, a string, a list or a dictionary, \<open>json.dumps\<close> calls
  \<open>default\<close> and writes what it returns; when \<open>default\<close> raises TypeError, so does
  \<open>json.dumps\<close>. Characters are given by their codes: 34 is the double quote, 92 the
  backslash.
\<close>

definition hex_digit :: "nat \<Rightarrow> char" where
  "hex_digit n = (if n < 10 then char_of (48 + n) else char_of (87 + n))"

definition escape_char :: "char \<Rightarrow> string" where
  "escape_char c =
     (let n = (of_char c :: nat) in
      if n = 34 then [char_of (92 :: nat), char_of (34 :: nat)]
      else if n = 92 then [char_of (92 :: nat), char_of (92 :: nat)]
      else if n = 10 then [char_of (92 :: nat), CHR ''n'']
      else if n = 13 then [char_of (92 :: nat), CHR ''r'']
      else if n = 9 then [char_of (92 :: nat), CHR ''t'']
      else if n = 8 then [char_of (92 :: nat), CHR ''b'']
      else if n = 12 then [char_of (92 :: nat), CHR ''f'']
      else if 32 \<le> n \<and> n \<le> 126 then [c]
      else [char_of (92 :: nat), CHR ''u'', CHR ''0'', CHR ''0'',
            hex_digit (n div 16), hex_digit (n mod 16)])"

definition encode_basestring_ascii :: "string \<Rightarrow> string" where
  "encode_basestring_ascii s =
     char_of (34 :: nat) # concat (map escape_char s) @ [char_of (34 :: nat)]"

fun json_dumps :: "json \<Rightarrow> error + string"
  and dumps_items :: "json list \<Rightarrow> error + string"
  and dumps_members :: "(string \<times> json) list \<Rightarrow> error + string" where
  "json_dumps JNull = Inr ''null''"
| "json_dumps (JBool b) = Inr (if b then ''true'' else ''false'')"
| "json_dumps (JInt n) = Inr (py_str n)"
| "json_dumps (JStr s) = Inr (encode_basestring_ascii s)"
| "json_dumps (JArr xs) = bindE (dumps_items xs) (\<lambda>t. Inr (''['' @ t @ '']''))"
| "json_dumps (JObj kvs) = bindE (dumps_members kvs) (\<lambda>t. Inr (''{'' @ t @ ''}''))"
| "json_dumps (JOther None) = Inl TypeError"
| "json_dumps (JOther (Some j)) = json_dumps j"
| "dumps_items [] = Inr []"
| "dumps_items (x # xs) =
     bindE (json_dumps x) (\<lambda>t.
       if xs = [] then Inr t
       else bindE (dumps_items xs) (\<lambda>ts. Inr (t @ '', '' @ ts)))"
| "dumps_members [] = Inr []"
| "dumps_members (kv # kvs) =
     bindE (json_dumps (snd kv)) (\<lambda>t.
       if kvs = [] then Inr (encode_basestring_ascii (fst kv) @ '': '' @ t)
       else bindE (dumps_members kvs) (\<lambda>ts.
              Inr (encode_basestring_ascii (fst kv) @ '': '' @ t @ '', '' @ ts)))"

subsection \<open>The base64 helpers (x402.encoding)\<close>

text \<open>
  \<open>text.encode("utf-8")\<close> for a string of code points below 256, as a list of byte values.
\<close>

definition utf8_encode :: "string \<Rightarrow> nat list" where
  "utf8_encode s =
     concat (map (\<lambda>c. let n = (of_char c :: nat) in
                        if n < 128 then [n] else [192 + n div 64, 128 + n mod 64]) s)"

text \<open>The URL-safe alphabet: \<open>A-Z\<close>, \<open>a-z\<close>, \<open>0-9\<close>, \<open>-\<close> and \<open>_\<close>.\<close>

definition b64_char :: "nat \<Rightarrow> char" where
  "b64_char n =
     (if n < 26 then char_of (65 + n)
      else if n < 52 then char_of (71 + n)
      else if n < 62 then char_of (n - 4)
      else if n = 62 then CHR ''-'' else CHR ''_'')"

fun b64_encode :: "nat list \<Rightarrow> string" where
  "b64_encode (a # b # c # bs) =
     [b64_char (a div 4), b64_char ((a mod 4) * 16 + b div 16),
      b64_char ((b mod 16) * 4 + c div 64), b64_char (c mod 64)] @ b64_encode bs"
| "b64_encode [a, b] =
     [b64_char (a div 4), b64_char ((a mod 4) * 16 + b div 16), b64_char ((b mod 16) * 4)]"
| "b64_encode [a] = [b64_char (a div 4), b64_char ((a mod 4) * 16)]"
| "b64_encode [] = []"

text \<open>
  Modelled from the spec: \<open>safe_base64_encode\<close> of x402/encoding.py, which is not among the
  source files. By the spec the encoding is base64 with the URL-safe alphabet and without
  padding, applied to the bytes of the text.
\<close>

definition safe_base64_encode :: "string \<Rightarrow> string" where
  "safe_base64_encode s = b64_encode (utf8_encode s)"

subsection \<open>\<open>encode_payment\<close>\<close>


subsection \<open>\<open>sign_payment_header\<close>\<close>


subsection \<open>\<open>safe_base64_decode\<close>\<close>

definition b64_val :: "char \<Rightarrow> nat option" where
  "b64_val c =
     (let n = (of_char c :: nat) in
      if 65 \<le> n \<and> n \<le> 90 then Some (n - 65)
      else if 97 \<le> n \<and> n \<le> 122 then Some (n - 71)
      else if 48 \<le> n \<and> n \<le> 57 then Some (n + 4)
      else if n = 45 then Some 62
      else if n = 95 then Some 63
      else None)"

text \<open>
  Four characters give three bytes; a last group of three characters gives two bytes and
  one of two characters gives one byte (the unpadded forms); a single last character is no
  encoding of anything, and neither is a character outside the alphabet.
\<close>

fun b64_decode :: "string \<Rightarrow> nat list option" where
  "b64_decode (a # b # c # d # cs) =
     (case (b64_val a, b64_val b, b64_val c, b64_val d) of
        (Some p, Some q, Some r, Some s) \<Rightarrow>
          (case b64_decode cs of
             None \<Rightarrow> None
           | Some bs \<Rightarrow>
               Some ([p * 4 + q div 16, (q mod 16) * 16 + r div 4, (r mod 4) * 64 + s] @ bs))
      | _ \<Rightarrow> None)"
| "b64_decode [a, b, c] =
     (case (b64_val a, b64_val b, b64_val c) of
        (Some p, Some q, Some r) \<Rightarrow> Some [p * 4 + q div 16, (q mod 16) * 16 + r div 4]
      | _ \<Rightarrow> None)"
| "b64_decode [a, b] =
     (case (b64_val a, b64_val b) of
        (Some p, Some q) \<Rightarrow> Some [p * 4 + q div 16]
      | _ \<Rightarrow> None)"
| "b64_decode [a] = None"
| "b64_decode [] = Some []"

text \<open>
  \<open>bytes.decode("utf-8")\<close> as far as the result has code points below 256: an ASCII byte is
  its own code point, and the lead bytes 194 and 195 with one continuation byte give the
  code points 128 to 255. The bytes 128 to 193 and 245 to 255 never start a character. A
  lead byte from 196 to 244 starts, if anything, a character above 255.
\<close>

fun utf8_decode :: "nat list \<Rightarrow> error + string" where
  "utf8_decode [] = Inr []"
| "utf8_decode (b # bs) =
     (if b < 128 then bindE (utf8_decode bs) (\<lambda>s. Inr (char_of b # s))
      else if b = 194 \<or> b = 195 then
        (case bs of
           [] \<Rightarrow> Inl DecodeFailure
         | c # bs' \<Rightarrow>
             if 128 \<le> c \<and> c < 192 then
               bindE (utf8_decode bs') (\<lambda>s. Inr (char_of ((b - 192) * 64 + (c - 128)) # s))
             else Inl DecodeFailure)
      else if b < 194 \<or> 245 \<le> b then Inl DecodeFailure
      else Inl OutsideModel)"

text \<open>
  Modelled from the spec: \<open>safe_base64_decode\<close> of x402/encoding.py, which is not among the
  source files: the inverse of \<open>safe_base64_encode\<close>, which fails on a text that is not
  unpadded URL-safe base64 and returns the decoded bytes as a text.
\<close>

definition safe_base64_decode :: "string \<Rightarrow> error + string" where
  "safe_base64_decode s =
     (case b64_decode s of None \<Rightarrow> Inl DecodeFailure | Some bs \<Rightarrow> utf8_decode bs)"

subsection \<open>\<open>json.loads\<close>\<close>

definition is_json_ws :: "char \<Rightarrow> bool" where
  "is_json_ws c = ((of_char c :: nat) \<in> {32, 9, 10, 13})"

definition skip_ws :: "string \<Rightarrow> string" where
  "skip_ws s = dropWhile is_json_ws s"

definition hex_val :: "char \<Rightarrow> nat option" where
  "hex_val c =
     (let n = (of_char c :: nat) in
      if 48 \<le> n \<and> n \<le> 57 then Some (n - 48)
      else if 97 \<le> n \<and> n \<le> 102 then Some (n - 87)
      else if 65 \<le> n \<and> n \<le> 70 then Some (n - 55)
      else None)"

text \<open>The character after a backslash, other than \<open>u\<close>, and the character it stands for.\<close>

definition unescape :: "char \<Rightarrow> char option" where
  "unescape e =
     (let n = (of_char e :: nat) in
      if n = 34 \<or> n = 92 \<or> n = 47 then Some e
      else if e = CHR ''b'' then Some (char_of (8 :: nat))
      else if e = CHR ''f'' then Some (char_of (12 :: nat))
      else if e = CHR ''n'' then Some (char_of (10 :: nat))
      else if e = CHR ''r'' then Some (char_of (13 :: nat))
      else if e = CHR ''t'' then Some (char_of (9 :: nat))
      else None)"

text \<open>
  The scan of a string, from the character after the opening quote: the result is the
  string and the text after the closing quote. A control character is refused (the decoder
  is strict), and so is an unknown escape and a text that ends inside the string.
\<close>

fun scanstring :: "string \<Rightarrow> error + string \<times> string" where
  "scanstring [] = Inl DecodeFailure"
| "scanstring (c # cs) =
     (let n = (of_char c :: nat) in
      if n = 34 then Inr ([], cs)
      else if n = 92 then
        (case cs of
           [] \<Rightarrow> Inl DecodeFailure
         | e # cs' \<Rightarrow>
             if e = CHR ''u'' then
               (case cs' of
                  h1 # h2 # h3 # h4 # cs'' \<Rightarrow>
                    (case (hex_val h1, hex_val h2, hex_val h3, hex_val h4) of
                       (Some a, Some b, Some c, Some d) \<Rightarrow>
                         (let u = ((a * 16 + b) * 16 + c) * 16 + d in
                          if u < 256 then
                            bindE (scanstring cs'') (\<lambda>sr. Inr (char_of u # fst sr, snd sr))
                          else Inl OutsideModel)
                     | _ \<Rightarrow> Inl DecodeFailure)
                | _ \<Rightarrow> Inl DecodeFailure)
             else
               (case unescape e of
                  None \<Rightarrow> Inl DecodeFailure
                | Some ch \<Rightarrow> bindE (scanstring cs') (\<lambda>sr. Inr (ch # fst sr, snd sr))))
      else if n < 32 then Inl DecodeFailure
      else bindE (scanstring cs) (\<lambda>sr. Inr (c # fst sr, snd sr)))"

text \<open>
  Whether the text after the integer part of a number continues it to a floating-point
  number: a fraction (a point and a digit) or an exponent.
\<close>

definition is_float_tail :: "string \<Rightarrow> bool" where
  "is_float_tail r =
     (case r of
        [] \<Rightarrow> False
      | c # r1 \<Rightarrow>
          if c = CHR ''.'' then (case r1 of [] \<Rightarrow> False | d # _ \<Rightarrow> is_digit d)
          else if c = CHR ''e'' \<or> c = CHR ''E'' then
            (case r1 of
               [] \<Rightarrow> False
             | d # r2 \<Rightarrow>
                 if d = CHR ''+'' \<or> d = CHR ''-'' then
                   (case r2 of [] \<Rightarrow> False | d' # _ \<Rightarrow> is_digit d')
                 else is_digit d)
          else False)"

text \<open>
  A number: an optional minus sign, then \<open>0\<close> or a digit from 1 to 9 followed by digits.
  \<open>None\<close> when the text does not start with a number.
\<close>

definition parse_number :: "string \<Rightarrow> (error + json \<times> string) option" where
  "parse_number s =
     (let neg = (s \<noteq> [] \<and> hd s = CHR ''-'');
          s1 = (if neg then tl s else s)
      in case s1 of
           [] \<Rightarrow> None
         | d # r \<Rightarrow>
             if \<not> is_digit d then None
             else
               (let ds = (if d = CHR ''0'' then [d] else takeWhile is_digit s1);
                    r' = (if d = CHR ''0'' then r else dropWhile is_digit s1)
                in if is_float_tail r' then Some (Inl OutsideModel)
                   else Some (Inr (JInt (if neg then - int (digits_value ds)
                                         else int (digits_value ds)), r'))))"

text \<open>
  The scanner. Its first argument bounds the depth of the calls; \<open>json_loads\<close> starts it
  with more than the length of the text. \<open>parse_items\<close> reads the elements of an array from
  the start of an element, \<open>parse_members\<close> the members of an object from the character
  after the opening quote of a key; both carry what they have read so far. A key that
  occurs again replaces the value of its first occurrence, as \<open>dict(pairs)\<close> does.
\<close>

fun parse_value :: "nat \<Rightarrow> string \<Rightarrow> error + json \<times> string"
  and parse_items :: "nat \<Rightarrow> json list \<Rightarrow> string \<Rightarrow> error + json \<times> string"
  and parse_members :: "nat \<Rightarrow> (string \<times> json) list \<Rightarrow> string \<Rightarrow> error + json \<times> string" where
  "parse_value 0 s = Inl OutsideModel"
| "parse_value (Suc n) [] = Inl DecodeFailure"
| "parse_value (Suc n) (c # cs) =
     (let k = (of_char c :: nat) in
      if k = 34 then bindE (scanstring cs) (\<lambda>sr. Inr (JStr (fst sr), snd sr))
      else if k = 123 then
        (case skip_ws cs of
           [] \<Rightarrow> Inl DecodeFailure
         | c1 # r \<Rightarrow>
             if (of_char c1 :: nat) = 125 then Inr (JObj [], r)
             else if (of_char c1 :: nat) = 34 then parse_members n [] r
             else Inl DecodeFailure)
      else if k = 91 then
        (case skip_ws cs of
           [] \<Rightarrow> Inl DecodeFailure
         | c1 # r \<Rightarrow>
             if (of_char c1 :: nat) = 93 then Inr (JArr [], r)
             else parse_items n [] (c1 # r))
      else if take 4 (c # cs) = ''null'' then Inr (JNull, drop 4 (c # cs))
      else if take 4 (c # cs) = ''true'' then Inr (JBool True, drop 4 (c # cs))
      else if take 5 (c # cs) = ''false'' then Inr (JBool False, drop 5 (c # cs))
      else
        (case parse_number (c # cs) of
           Some r \<Rightarrow> r
         | None \<Rightarrow>
             if take 3 (c # cs) = ''NaN'' \<or> take 8 (c # cs) = ''Infinity'' \<or>
                take 9 (c # cs) = ''-Infinity''
             then Inl OutsideModel
             else Inl DecodeFailure))"
| "parse_items 0 acc s = Inl OutsideModel"
| "parse_items (Suc n) acc s =
     bindE (parse_value n s) (\<lambda>vr.
       case skip_ws (snd vr) of
         [] \<Rightarrow> Inl DecodeFailure
       | c # r \<Rightarrow>
           if (of_char c :: nat) = 93 then Inr (JArr (acc @ [fst vr]), r)
           else if (of_char c :: nat) = 44 then parse_items n (acc @ [fst vr]) (skip_ws r)
           else Inl DecodeFailure)"
| "parse_members 0 acc s = Inl OutsideModel"
| "parse_members (Suc n) acc s =
     bindE (scanstring s) (\<lambda>kr.
       case skip_ws (snd kr) of
         [] \<Rightarrow> Inl DecodeFailure
       | c # r \<Rightarrow>
           if (of_char c :: nat) \<noteq> 58 then Inl DecodeFailure
           else
             bindE (parse_value n (skip_ws r)) (\<lambda>vr.
               case skip_ws (snd vr) of
                 [] \<Rightarrow> Inl DecodeFailure
               | c' # r' \<Rightarrow>
                   if (of_char c' :: nat) = 125 then
                     Inr (JObj (dict_set acc (fst kr) (fst vr)), r')
                   else if (of_char c' :: nat) = 44 then
                     (case skip_ws r' of
                        [] \<Rightarrow> Inl DecodeFailure
                      | q # r'' \<Rightarrow>
                          if (of_char q :: nat) = 34 then
                            parse_members n (dict_set acc (fst kr) (fst vr)) r''
                          else Inl DecodeFailure)
                   else Inl DecodeFailure))"

text \<open>\<open>json.loads(s)\<close>: white space, one value, white space, and nothing more.\<close>

definition json_loads :: "string \<Rightarrow> error + json" where
  "json_loads s =
     bindE (parse_value (Suc (length s)) (skip_ws s)) (\<lambda>vr.
       if skip_ws (snd vr) = [] then Inr (fst vr) else Inl DecodeFailure)"

subsection \<open>\<open>decode_payment\<close>\<close>

definition decode_payment :: "string \<Rightarrow> error + json" where
  "decode_payment encoded_payment = bindE (safe_base64_decode encoded_payment) json_loads"

section \<open>Properties\<close>

subsection \<open>Sequencing\<close>

lemma bindE_Inr [simp]: "bindE (Inr x) f = f x"
  by (simp add: bindE_def)

lemma bindE_Inl [simp]: "bindE (Inl e) f = Inl e"
  by (simp add: bindE_def)

lemma bindE_eq_Inr: "bindE r f = Inr y \<longleftrightarrow> (\<exists>x. r = Inr x \<and> f x = Inr y)"
  by (cases r) simp_all

subsection \<open>\<open>str\<close> and \<open>int\<close> are inverse on the integers\<close>

lemma of_char_digit_char: "d < 10 \<Longrightarrow> (of_char (digit_char d) :: nat) = 48 + d"
  by (simp add: digit_char_def)

lemma digit_char_props:
  assumes "d < 10"
  shows "is_digit (digit_char d) \<and> digit_char d \<noteq> CHR ''_'' \<and> digit_val (digit_char d) = d"
proof -
  have "is_digit (digit_char d)" using assms by (simp add: is_digit_def of_char_digit_char)
  moreover from this have "digit_char d \<noteq> CHR ''_''" by (auto simp: is_digit_def)
  moreover have "digit_val (digit_char d) = d" using assms by (simp add: digit_val_def of_char_digit_char)
  ultimately show ?thesis by simp
qed

lemma is_digit_not_us: "is_digit c \<Longrightarrow> c \<noteq> CHR ''_''"
  by (auto simp: is_digit_def)

lemma nat_digits_all: "c \<in> set (nat_digits n) \<Longrightarrow> is_digit c"
proof (induction n arbitrary: c rule: nat_digits.induct)
  case (1 n)
  show ?case
  proof (cases "n < 10")
    case True
    with "1.prems" show ?thesis using digit_char_props[of n]
      by (subst (asm) nat_digits.simps) simp
  next
    case False
    with "1.prems" have "c \<in> set (nat_digits (n div 10)) \<or> c = digit_char (n mod 10)"
      by (subst (asm) nat_digits.simps) auto
    then show ?thesis using "1.IH"[OF False] digit_char_props[of "n mod 10"] by auto
  qed
qed

lemma nat_digits_nonempty: "nat_digits n \<noteq> []"
  by (subst nat_digits.simps) simp

lemma scan_digits_all: "\<forall>c \<in> set cs. is_digit c \<Longrightarrow> prev \<noteq> CHR ''_'' \<Longrightarrow> scan_digits prev cs"
  by (induction cs arbitrary: prev) (auto simp: is_digit_not_us)

lemma digits_ok_all: "s \<noteq> [] \<Longrightarrow> \<forall>c \<in> set s. is_digit c \<Longrightarrow> digits_ok s"
  by (cases s) (auto simp: digits_ok_def intro!: scan_digits_all is_digit_not_us)

lemma digits_ok_nat_digits: "digits_ok (nat_digits n)"
  by (rule digits_ok_all[OF nat_digits_nonempty]) (simp add: nat_digits_all)

lemma digits_value_snoc:
  "digits_value (s @ [c]) = (if c = CHR ''_'' then digits_value s else 10 * digits_value s + digit_val c)"
  by (simp add: digits_value_def)

lemma digits_value_nat_digits: "digits_value (nat_digits n) = n"
proof (induction n rule: nat_digits.induct)
  case (1 n)
  show ?case
  proof (cases "n < 10")
    case True
    then show ?thesis using digit_char_props[of n]
      by (subst nat_digits.simps) (simp add: digits_value_def)
  next
    case False
    then show ?thesis using "1.IH"[OF False] digit_char_props[of "n mod 10"]
      by (subst nat_digits.simps) (simp add: digits_value_snoc)
  qed
qed

lemma dropWhile_hd: "xs \<noteq> [] \<Longrightarrow> \<not> P (hd xs) \<Longrightarrow> dropWhile P xs = xs"
  by (cases xs) auto

lemma strip_no_space: "s \<noteq> [] \<Longrightarrow> \<not> is_space (hd s) \<Longrightarrow> \<not> is_space (last s) \<Longrightarrow> strip s = s"
  by (simp add: strip_def dropWhile_hd hd_rev)

lemma py_int_py_str: "py_int (py_str n) = Inr n"
proof -
  let ?m = "if n < 0 then nat (- n) else nat n"
  let ?d = "nat_digits ?m"
  have ne: "?d \<noteq> []" by (rule nat_digits_nonempty)
  have dig: "\<And>c. c \<in> set ?d \<Longrightarrow> is_digit c" by (rule nat_digits_all)
  have hd_d: "is_digit (hd ?d)" and last_d: "is_digit (last ?d)" using ne dig by auto
  have nsp: "\<And>c. is_digit c \<Longrightarrow> \<not> is_space c \<and> c \<noteq> CHR ''-'' \<and> c \<noteq> CHR ''+''"
    by (auto simp: is_digit_def is_space_def)
  show ?thesis
  proof (cases "n < 0")
    case True
    have "strip (CHR ''-'' # ?d) = CHR ''-'' # ?d"
      using ne last_d nsp by (intro strip_no_space) (auto simp: is_space_def)
    then show ?thesis using True digits_ok_nat_digits[of ?m] digits_value_nat_digits[of ?m]
      by (simp add: py_int_def py_str_def)
  next
    case False
    have st: "strip ?d = ?d" using ne hd_d last_d nsp by (intro strip_no_space) auto
    obtain c cs where d: "?d = c # cs" using ne by (cases ?d) auto
    have "is_digit c" using hd_d d by simp
    then have "c \<noteq> CHR ''-''" "c \<noteq> CHR ''+''" using nsp by auto
    then show ?thesis using False st d digits_ok_nat_digits[of ?m] digits_value_nat_digits[of ?m]
      by (simp add: py_int_def py_str_def)
  qed
qed

subsection \<open>A test environment\<close>

text \<open>
  Collaborators for the concrete examples: a normaliser that maps an address to lower case
  and refuses the empty string, the chain id of one network, and a deterministic signer.
  The typed-data encoder writes the domain, the message types and the message body out as
  one text, so that the message depends on every entry of the typed data. An account is its
  address (42 characters), and its signature over a message is the address followed by the
  message. The recovery returns the address at the head of the signature when the rest of
  the signature is the message it is given, and the zero address for a signature over
  another message, as a recovery returns some unrelated address then.
\<close>

definition render_value :: "json \<Rightarrow> string" where
  "render_value j = (case j of JStr s \<Rightarrow> s | JInt n \<Rightarrow> py_str n | _ \<Rightarrow> [])"

definition render_entries :: "(string \<times> json) list \<Rightarrow> string" where
  "render_entries d =
     concat (map (\<lambda>kv. fst kv @ ''='' @ render_value (snd kv) @ '';'') d)"

definition render_types :: "(string \<times> (string \<times> string) list) list \<Rightarrow> string" where
  "render_types tys =
     concat (map (\<lambda>t. fst t @ ''('' @
                          concat (map (\<lambda>f. snd f @ '' '' @ fst f @ '','') (snd t)) @ '')'')
               tys)"

definition example_encode ::
  "(string \<times> json) list \<Rightarrow> (string \<times> (string \<times> string) list) list \<Rightarrow>
     (string \<times> json) list \<Rightarrow> string" where
  "example_encode d tys msg = render_entries d @ render_types tys @ render_entries msg"

definition example_env :: "(string, string) env" where
  "example_env =
     \<lparr>to_checksum_address = (\<lambda>a. if a = [] then Inl InvalidAddress else Inr (py_lower a)),
      get_chain_id = (\<lambda>n. if n = ''base-sepolia'' then Inr 84532 else Inl UnknownNetwork),
      encode_typed_data = (\<lambda>d tys msg. Inr (example_encode d tys msg)),
      sign_message = (\<lambda>acct m. Inr (acct @ m)),
      recover_message =
        (\<lambda>m sg. if take 2 sg \<noteq> ''0x'' then Inl InvalidSignatureFormat
                 else if drop 42 sg = m then Inr (take 42 sg)
                 else Inr ''0x0000000000000000000000000000000000000000'')\<rparr>"

definition example_buyer :: string where
  "example_buyer = ''0x209693Bc6afc0C5328bA36FaF03C514EF312287C''"

definition example_voucher :: voucher where
  "example_voucher =
     \<lparr>voucher_id = ''0x1111111111111111111111111111111111111111111111111111111111111111'',
      buyer = example_buyer,
      seller = ''0xA1c7Bf3d421e8A54D39FbBE13f9f826E5B2C8e3D'',
      value_aggregate = ''18446744073709551616'',
      asset = ''0x081827b8c3aa05287b5aa2bc3051fbe638f33152'',
      timestamp = 1699999900, nonce = 1,
      escrow = ''0x7cB1A5A2a2C9e91B76914C0A7b7Fb3AefF3BCA27'',
      chain_id = 84532, expiry = 1702591900\<rparr>"

text \<open>
  The typed data of the example voucher, its message and the buyer's signature over it.
\<close>

definition example_typed :: typed_data where
  "example_typed =
     \<lparr>types = eip712_types, primaryType = ''Voucher'',
      domain =
        [(''name'', JStr ''DeferredPaymentEscrow''), (''version'', JStr ''1''),
         (''chainId'', JInt 84532),
         (''verifyingContract'', JStr ''0x7cb1a5a2a2c9e91b76914c0a7b7fb3aeff3bca27'')],
      message =
        [(''id'', JStr ''0x1111111111111111111111111111111111111111111111111111111111111111''),
         (''buyer'', JStr ''0x209693bc6afc0c5328ba36faf03c514ef312287c''),
         (''seller'', JStr ''0xa1c7bf3d421e8a54d39fbbe13f9f826e5b2c8e3d''),
         (''valueAggregate'', JInt 18446744073709551616),
         (''asset'', JStr ''0x081827b8c3aa05287b5aa2bc3051fbe638f33152''),
         (''timestamp'', JInt 1699999900), (''nonce'', JInt 1),
         (''escrow'', JStr ''0x7cb1a5a2a2c9e91b76914c0a7b7fb3aeff3bca27''),
         (''chainId'', JInt 84532), (''expiry'', JInt 1702591900)]\<rparr>"

definition example_message :: string where
  "example_message =
     example_encode (domain example_typed) (message_types example_typed) (message example_typed)"

definition example_signature :: string where
  "example_signature = example_buyer @ example_message"

definition example_aggregation :: payment_requirements where
  "example_aggregation =
     \<lparr>network = ''base-sepolia'', max_amount_required = ''500000000000000000'',
      pay_to = ''0xa1c7bf3d421e8a54d39fbbe13f9f826e5b2c8e3d'',
      req_asset = ''0x081827b8c3aa05287b5aa2bc3051fbe638f33152'',
      extra = Some [(''type'', JStr ''aggregation''), (''signature'', JStr example_signature),
                    (''voucher'', JObj (model_dump example_voucher))]\<rparr>"

definition example_clock :: "nat \<Rightarrow> int" where
  "example_clock k = 1700000000 + int k"

subsection \<open>Evaluation of concrete examples\<close>

lemma char_of_nat_eq: "char_of (n::nat) = c \<longleftrightarrow> n mod 256 = of_char c"
  by (simp add: char_of_eq_iff take_bit_eq_mod)

lemma char_of_nat_eq': "c = char_of (n::nat) \<longleftrightarrow> n mod 256 = of_char c"
  using char_of_nat_eq[of n c] by auto

lemmas int_eval = py_int_def strip_def is_space_def digits_ok_def is_digit_def digits_value_def digit_val_def
lemmas str_eval = py_str_def nat_digits.simps digit_char_def char_of_nat_eq char_of_nat_eq'
lemmas lower_eval = py_lower_def lower_char_def char_of_nat_eq char_of_nat_eq'
lemmas dict_eval = lookup_def get_str_def get_int_def dict_get_def as_str_def as_obj_def
lemmas example_defs = example_env_def example_buyer_def example_voucher_def example_aggregation_def example_clock_def

lemma aggregate_voucher_Inr_iff:
  "aggregate_voucher E clk b req = Inr v' \<longleftrightarrow>
     (\<exists>sg v a p bn.
        parse_aggregation_extra (extra req) = Some (sg, v) \<and>
        py_lower (pay_to req) = py_lower (seller v) \<and>
        py_lower (req_asset req) = py_lower (asset v) \<and>
        get_chain_id E (network req) = Inr (chain_id v) \<and>
        clk 0 \<le> expiry v \<and> timestamp v \<le> clk 0 \<and>
        verify_voucher E v sg b = Inr True \<and>
        py_int (max_amount_required req) = Inr a \<and>
        py_int (value_aggregate v) = Inr p \<and>
        to_checksum_address E b = Inr bn \<and>
        v' = \<lparr>voucher_id = voucher_id v, buyer = bn, seller = seller v,
              value_aggregate = py_str (a + p), asset = asset v, timestamp = clk 0,
              nonce = nonce v + 1, escrow = escrow v, chain_id = chain_id v,
              expiry = clk 0 + EXPIRY_TIME\<rparr>)"
  unfolding aggregate_voucher_def Let_def
  by (auto simp: bindE_eq_Inr split: option.splits prod.splits if_splits)

lemma example_parse:
  "parse_aggregation_extra (extra example_aggregation) =
     Some (example_signature, example_voucher)"
  by (simp add: example_defs parse_aggregation_extra_def dict_eval model_dump_def voucher_of_dict_def)

lemma example_typed_data:
  "get_voucher_typed_data example_env example_voucher = Inr example_typed"
  by (simp add: get_voucher_typed_data_def example_typed_def example_defs int_eval lower_eval)

lemma example_signable:
  "signable_message example_env example_voucher = Inr example_message"
  by (simp add: signable_message_def example_typed_data example_message_def)
    (simp add: example_env_def)

lemma example_encoded:
  "encode_typed_data example_env (domain example_typed) (message_types example_typed)
     (message example_typed) = Inr example_message"
  by (simp add: example_env_def example_message_def)

lemma example_signed:
  "sign_message example_env example_buyer example_message = Inr example_signature"
  "take 2 example_signature = ''0x''"
  by (simp_all add: example_env_def example_signature_def example_buyer_def)


lemma example_recover:
  "recover_message example_env example_message example_signature = Inr example_buyer"
  by (simp add: example_env_def example_signature_def example_buyer_def)

lemma example_verify:
  "verify_voucher example_env example_voucher example_signature example_buyer = Inr True"
  by (simp add: verify_voucher_def example_signable example_recover)

lemma example_amounts:
  "py_int (max_amount_required example_aggregation) = Inr 500000000000000000"
  "py_int (value_aggregate example_voucher) = Inr 18446744073709551616"
  by (simp_all add: example_defs int_eval)

lemma example_checks:
  "py_lower (pay_to example_aggregation) = py_lower (seller example_voucher)"
  "py_lower (req_asset example_aggregation) = py_lower (asset example_voucher)"
  "get_chain_id example_env (network example_aggregation) = Inr (chain_id example_voucher)"
  "example_clock 0 \<le> expiry example_voucher"
  "timestamp example_voucher \<le> example_clock 0"
  "to_checksum_address example_env example_buyer = Inr ''0x209693bc6afc0c5328ba36faf03c514ef312287c''"
  by (simp_all add: example_defs lower_eval)

subsection \<open>Aggregation is additive and nonce-monotone\<close>

text \<open>
  Claim C1. When the prior voucher \<open>v\<close> and the requirements pass every check of
  \<open>aggregate_voucher\<close> (the seller, the asset and the chain id match, the clock lies between
  the timestamp and the expiry of \<open>v\<close>, the signature verifies for the buyer), and the two
  amounts are integer literals \<open>p\<close> and \<open>a\<close> and the buyer address normalises, the function
  returns a voucher. Its \<open>value_aggregate\<close> is \<open>str(p + a)\<close>, the decimal text that \<open>int\<close>
  reads back as \<open>p + a\<close>, and its nonce is the nonce of \<open>v\<close> plus one. The integers are
  unbounded: nothing restricts \<open>p\<close> and \<open>a\<close> to 64 bits, and the equation holds for
  negative amounts as well. The witness adds to a prior value of \<open>2^64\<close>.
\<close>

theorem aggregate_voucher_additive:
  assumes "parse_aggregation_extra (extra req) = Some (sg, v)"
    and "py_lower (pay_to req) = py_lower (seller v)"
    and "py_lower (req_asset req) = py_lower (asset v)"
    and "get_chain_id E (network req) = Inr (chain_id v)"
    and "clk 0 \<le> expiry v" and "timestamp v \<le> clk 0"
    and "verify_voucher E v sg b = Inr True"
    and "py_int (value_aggregate v) = Inr p"
    and "py_int (max_amount_required req) = Inr a"
    and "to_checksum_address E b = Inr bn"
  shows "\<exists>v'. aggregate_voucher E clk b req = Inr v' \<and>
              value_aggregate v' = py_str (p + a) \<and>
              py_int (value_aggregate v') = Inr (p + a) \<and>
              nonce v' = nonce v + 1"
proof -
  let ?v' = "\<lparr>voucher_id = voucher_id v, buyer = bn, seller = seller v,
              value_aggregate = py_str (a + p), asset = asset v, timestamp = clk 0,
              nonce = nonce v + 1, escrow = escrow v, chain_id = chain_id v,
              expiry = clk 0 + EXPIRY_TIME\<rparr>"
  have "aggregate_voucher E clk b req = Inr ?v'"
    unfolding aggregate_voucher_Inr_iff using assms by blast
  then show ?thesis
    by (simp add: py_int_py_str add.commute)
qed

theorem aggregate_voucher_additive_witness:
  "\<exists>v'. aggregate_voucher example_env example_clock example_buyer example_aggregation = Inr v' \<and>
        value_aggregate v' = ''18946744073709551616'' \<and>
        py_int (value_aggregate v') = Inr (18446744073709551616 + 500000000000000000) \<and>
        nonce v' = 2"
proof -
  have s: "py_str (18446744073709551616 + 500000000000000000) = ''18946744073709551616''"
    by (simp add: str_eval)
  have n: "nonce example_voucher + 1 = 2"
    by (simp add: example_defs)
  show ?thesis
    using aggregate_voucher_additive [where clk = example_clock and E = example_env
        and req = example_aggregation and v = example_voucher and sg = example_signature
        and b = example_buyer and p = 18446744073709551616 and a = 500000000000000000]
      example_parse example_checks example_verify example_amounts
    unfolding s n by simp
qed

subsection \<open>What a successful aggregation keeps and what it sets\<close>

lemma example_aggregate:
  "aggregate_voucher example_env example_clock example_buyer example_aggregation =
     Inr \<lparr>voucher_id = ''0x1111111111111111111111111111111111111111111111111111111111111111'',
          buyer = ''0x209693bc6afc0c5328ba36faf03c514ef312287c'',
          seller = ''0xA1c7Bf3d421e8A54D39FbBE13f9f826E5B2C8e3D'',
          value_aggregate = ''18946744073709551616'',
          asset = ''0x081827b8c3aa05287b5aa2bc3051fbe638f33152'',
          timestamp = 1700000000, nonce = 2,
          escrow = ''0x7cB1A5A2a2C9e91B76914C0A7b7Fb3AefF3BCA27'',
          chain_id = 84532, expiry = 1702592000\<rparr>"
proof -
  have s: "py_str (500000000000000000 + 18446744073709551616) = ''18946744073709551616''"
    by (simp add: str_eval)
  have "\<exists>sg v a p bn.
        parse_aggregation_extra (extra example_aggregation) = Some (sg, v) \<and>
        py_lower (pay_to example_aggregation) = py_lower (seller v) \<and>
        py_lower (req_asset example_aggregation) = py_lower (asset v) \<and>
        get_chain_id example_env (network example_aggregation) = Inr (chain_id v) \<and>
        example_clock 0 \<le> expiry v \<and> timestamp v \<le> example_clock 0 \<and>
        verify_voucher example_env v sg example_buyer = Inr True \<and>
        py_int (max_amount_required example_aggregation) = Inr a \<and>
        py_int (value_aggregate v) = Inr p \<and>
        to_checksum_address example_env example_buyer = Inr bn \<and>
        \<lparr>voucher_id = ''0x1111111111111111111111111111111111111111111111111111111111111111'',
          buyer = ''0x209693bc6afc0c5328ba36faf03c514ef312287c'',
          seller = ''0xA1c7Bf3d421e8A54D39FbBE13f9f826E5B2C8e3D'',
          value_aggregate = ''18946744073709551616'',
          asset = ''0x081827b8c3aa05287b5aa2bc3051fbe638f33152'',
          timestamp = 1700000000, nonce = 2,
          escrow = ''0x7cB1A5A2a2C9e91B76914C0A7b7Fb3AefF3BCA27'',
          chain_id = 84532, expiry = 1702592000\<rparr> = \<lparr>voucher_id = voucher_id v, buyer = bn, seller = seller v,
              value_aggregate = py_str (a + p), asset = asset v, timestamp = example_clock 0,
              nonce = nonce v + 1, escrow = escrow v, chain_id = chain_id v,
              expiry = example_clock 0 + EXPIRY_TIME\<rparr>"
    apply (rule exI[of _ example_signature], rule exI[of _ example_voucher])
    apply (rule exI[of _ 500000000000000000], rule exI[of _ 18446744073709551616])
    apply (rule exI[of _ "''0x209693bc6afc0c5328ba36faf03c514ef312287c''"])
    apply (simp only: example_parse example_checks example_verify example_amounts s simp_thms)
    apply (simp add: example_voucher_def example_clock_def EXPIRY_TIME_def)
    done
  then show ?thesis unfolding aggregate_voucher_Inr_iff .
qed

text \<open>
  Claim C7. Whenever \<open>aggregate_voucher\<close> returns a voucher, the requirements carried a prior
  voucher \<open>v\<close>, and the returned voucher has the \<open>id\<close>, \<open>seller\<close>, \<open>asset\<close>, \<open>escrow\<close> and
  \<open>chain_id\<close> of \<open>v\<close>; its buyer is the normalised buyer argument, its timestamp is the one
  reading of the clock, and its expiry is that reading plus 30 days (2592000 seconds).
\<close>

theorem aggregate_voucher_frame:
  assumes "aggregate_voucher E clk b req = Inr v'"
  shows "\<exists>sg v. parse_aggregation_extra (extra req) = Some (sg, v) \<and>
           voucher_id v' = voucher_id v \<and> seller v' = seller v \<and> asset v' = asset v \<and>
           escrow v' = escrow v \<and> chain_id v' = chain_id v \<and>
           to_checksum_address E b = Inr (buyer v') \<and>
           timestamp v' = clk 0 \<and> expiry v' = clk 0 + 2592000"
  using assms unfolding aggregate_voucher_Inr_iff by (auto simp: EXPIRY_TIME_def)

theorem aggregate_voucher_frame_witness:
  "\<exists>v'. aggregate_voucher example_env example_clock example_buyer example_aggregation = Inr v' \<and>
     (\<exists>sg v. parse_aggregation_extra (extra example_aggregation) = Some (sg, v) \<and>
           voucher_id v' = voucher_id v \<and> seller v' = seller v \<and> asset v' = asset v \<and>
           escrow v' = escrow v \<and> chain_id v' = chain_id v \<and>
           to_checksum_address example_env example_buyer = Inr (buyer v') \<and>
           timestamp v' = 1700000000 \<and> expiry v' = 1700000000 + 2592000)"
  using aggregate_voucher_frame [OF example_aggregate] example_aggregate
  by (simp add: example_clock_def)

text \<open>An address is in normalised form when normalising it returns it unchanged.\<close>

definition is_normalized :: "('acct, 'msg) env \<Rightarrow> string \<Rightarrow> bool" where
  "is_normalized E a = (to_checksum_address E a = Inr a)"

text \<open>
  Claim C10. Whenever \<open>aggregate_voucher\<close> returns a voucher, its \<open>seller\<close>, \<open>asset\<close> and
  \<open>escrow\<close> are the strings of the prior voucher, character for character: no
  normalisation is applied to them, and only the buyer is the result of
  \<open>to_checksum_address\<close>. So each of the three is in normalised form exactly when the prior
  voucher's field was. In the witness the prior seller and escrow are not in the test
  environment's normalised form, and neither are the successor's.
\<close>

theorem aggregate_voucher_copies_addresses:
  assumes "aggregate_voucher E clk b req = Inr v'"
  shows "\<exists>sg v. parse_aggregation_extra (extra req) = Some (sg, v) \<and>
           seller v' = seller v \<and> asset v' = asset v \<and> escrow v' = escrow v \<and>
           to_checksum_address E b = Inr (buyer v') \<and>
           (is_normalized E (seller v') \<longleftrightarrow> is_normalized E (seller v)) \<and>
           (is_normalized E (asset v') \<longleftrightarrow> is_normalized E (asset v)) \<and>
           (is_normalized E (escrow v') \<longleftrightarrow> is_normalized E (escrow v))"
  using assms unfolding aggregate_voucher_Inr_iff by auto

theorem aggregate_voucher_copies_addresses_witness:
  "\<exists>v'. aggregate_voucher example_env example_clock example_buyer example_aggregation = Inr v' \<and>
      seller v' = seller example_voucher \<and> asset v' = asset example_voucher \<and>
      escrow v' = escrow example_voucher \<and>
      \<not> is_normalized example_env (seller v') \<and> is_normalized example_env (asset v') \<and>
      \<not> is_normalized example_env (escrow v') \<and> is_normalized example_env (buyer v')"
proof -
  from aggregate_voucher_copies_addresses [OF example_aggregate]
  have "seller example_voucher = ''0xA1c7Bf3d421e8A54D39FbBE13f9f826E5B2C8e3D''"
    by (simp add: example_parse)
  then show ?thesis
    unfolding example_aggregate
    by (simp add: is_normalized_def example_env_def example_voucher_def lower_eval)
qed

subsection \<open>The order of the checks of \<open>aggregate_voucher\<close>\<close>

text \<open>Variants of the example, one for each check that fails first.\<close>

definition example_wrong_seller :: payment_requirements where
  "example_wrong_seller =
     example_aggregation\<lparr>pay_to := ''0x0000000000000000000000000000000000000001''\<rparr>"

definition example_wrong_asset :: payment_requirements where
  "example_wrong_asset =
     example_aggregation\<lparr>req_asset := ''0x0000000000000000000000000000000000000002''\<rparr>"

definition example_env_other_chain :: "(string, string) env" where
  "example_env_other_chain = example_env\<lparr>get_chain_id := (\<lambda>n. Inr 8453)\<rparr>"

definition example_late_clock :: "nat \<Rightarrow> int" where
  "example_late_clock k = 1702591901 + int k"

definition example_early_clock :: "nat \<Rightarrow> int" where
  "example_early_clock k = 1699999899 + int k"

definition example_other_buyer :: string where
  "example_other_buyer = ''0x9999999999999999999999999999999999999999''"

lemma example_variants_parse:
  "parse_aggregation_extra (extra example_wrong_seller) =
     Some (example_signature, example_voucher)"
  "parse_aggregation_extra (extra example_wrong_asset) =
     Some (example_signature, example_voucher)"
  using example_parse by (simp_all add: example_wrong_seller_def example_wrong_asset_def)

lemma example_verify_other:
  "verify_voucher example_env example_voucher example_signature example_other_buyer =
     Inr False"
  by (simp add: verify_voucher_def example_signable example_recover)
    (simp add: example_buyer_def example_other_buyer_def lower_eval)

text \<open>
  Claim C2. Once the extra payload has been read as a signature and a prior voucher \<open>v\<close>,
  \<open>aggregate_voucher\<close> checks the seller, the asset, the chain id, the expiry, the timestamp
  and the signature, in this order, and the first check that fails decides the result:
  \<open>InvalidSeller\<close>, \<open>InvalidAsset\<close>, \<open>InvalidChainId\<close>, \<open>VoucherExpired\<close>,
  \<open>VoucherTimestampInFuture\<close>, \<open>InvalidVoucherSignature\<close>. Each line below assumes that the
  checks before it passed and says nothing about the checks after it, which are not
  evaluated. The result is then an error value \<open>Inl e\<close>, so no voucher is returned. In
  particular a voucher whose expiry lies before the clock reading is refused with
  \<open>VoucherExpired\<close> whatever the signature is: the witness uses a voucher whose signature
  verifies. A failure of a collaborator itself (an unknown network, a malformed signature)
  is a different error and is not one of the six checks.
\<close>

theorem aggregate_voucher_validation_order:
  assumes "parse_aggregation_extra (extra req) = Some (sg, v)"
  shows "(py_lower (pay_to req) \<noteq> py_lower (seller v) \<longrightarrow>
            aggregate_voucher E clk b req = Inl InvalidSeller) \<and>
         (py_lower (pay_to req) = py_lower (seller v) \<and>
          py_lower (req_asset req) \<noteq> py_lower (asset v) \<longrightarrow>
            aggregate_voucher E clk b req = Inl InvalidAsset) \<and>
         (py_lower (pay_to req) = py_lower (seller v) \<and>
          py_lower (req_asset req) = py_lower (asset v) \<and>
          get_chain_id E (network req) = Inr c \<and> c \<noteq> chain_id v \<longrightarrow>
            aggregate_voucher E clk b req = Inl InvalidChainId) \<and>
         (py_lower (pay_to req) = py_lower (seller v) \<and>
          py_lower (req_asset req) = py_lower (asset v) \<and>
          get_chain_id E (network req) = Inr (chain_id v) \<and> clk 0 > expiry v \<longrightarrow>
            aggregate_voucher E clk b req = Inl VoucherExpired) \<and>
         (py_lower (pay_to req) = py_lower (seller v) \<and>
          py_lower (req_asset req) = py_lower (asset v) \<and>
          get_chain_id E (network req) = Inr (chain_id v) \<and> clk 0 \<le> expiry v \<and>
          clk 0 < timestamp v \<longrightarrow>
            aggregate_voucher E clk b req = Inl VoucherTimestampInFuture) \<and>
         (py_lower (pay_to req) = py_lower (seller v) \<and>
          py_lower (req_asset req) = py_lower (asset v) \<and>
          get_chain_id E (network req) = Inr (chain_id v) \<and> clk 0 \<le> expiry v \<and>
          timestamp v \<le> clk 0 \<and> verify_voucher E v sg b = Inr False \<longrightarrow>
            aggregate_voucher E clk b req = Inl InvalidVoucherSignature)"
  using assms by (simp add: aggregate_voucher_def)

theorem aggregate_voucher_validation_order_witness:
  "aggregate_voucher example_env example_clock example_buyer example_wrong_seller =
     Inl InvalidSeller \<and>
   aggregate_voucher example_env example_clock example_buyer example_wrong_asset =
     Inl InvalidAsset \<and>
   aggregate_voucher example_env_other_chain example_clock example_buyer example_aggregation =
     Inl InvalidChainId \<and>
   verify_voucher example_env example_voucher example_signature example_buyer = Inr True \<and>
   aggregate_voucher example_env example_late_clock example_buyer example_aggregation =
     Inl VoucherExpired \<and>
   aggregate_voucher example_env example_early_clock example_buyer example_aggregation =
     Inl VoucherTimestampInFuture \<and>
   aggregate_voucher example_env example_clock example_other_buyer example_aggregation =
     Inl InvalidVoucherSignature"
proof -
  have 1: "py_lower (pay_to example_wrong_seller) \<noteq> py_lower (seller example_voucher)"
    by (simp add: example_wrong_seller_def example_defs lower_eval)
  have 2: "py_lower (pay_to example_wrong_asset) = py_lower (seller example_voucher)"
    "py_lower (req_asset example_wrong_asset) \<noteq> py_lower (asset example_voucher)"
    by (simp_all add: example_wrong_asset_def example_defs lower_eval)
  have 3: "get_chain_id example_env_other_chain (network example_aggregation) = Inr 8453"
    "8453 \<noteq> chain_id example_voucher"
    by (simp_all add: example_env_other_chain_def example_defs)
  have 4: "example_late_clock 0 > expiry example_voucher"
    by (simp add: example_late_clock_def example_defs)
  have 5: "example_early_clock 0 \<le> expiry example_voucher"
    "example_early_clock 0 < timestamp example_voucher"
    by (simp_all add: example_early_clock_def example_defs)
  note ok = example_checks(1-5)
  show ?thesis
    using
      aggregate_voucher_validation_order [OF example_variants_parse(1),
        where E = example_env and clk = example_clock and b = example_buyer]
      aggregate_voucher_validation_order [OF example_variants_parse(2),
        where E = example_env and clk = example_clock and b = example_buyer]
      aggregate_voucher_validation_order [OF example_parse,
        where E = example_env_other_chain and clk = example_clock and b = example_buyer
          and c = 8453]
      aggregate_voucher_validation_order [OF example_parse,
        where E = example_env and clk = example_late_clock and b = example_buyer]
      aggregate_voucher_validation_order [OF example_parse,
        where E = example_env and clk = example_early_clock and b = example_buyer]
      aggregate_voucher_validation_order [OF example_parse,
        where E = example_env and clk = example_clock and b = example_other_buyer]
      1 2 3 4 5 ok example_verify example_verify_other
    by simp
qed

subsection \<open>The typed data of a voucher\<close>

lemma example_normalised:
  "to_checksum_address example_env (escrow example_voucher) =
     Inr ''0x7cb1a5a2a2c9e91b76914c0a7b7fb3aeff3bca27''"
  "to_checksum_address example_env (buyer example_voucher) =
     Inr ''0x209693bc6afc0c5328ba36faf03c514ef312287c''"
  "to_checksum_address example_env (seller example_voucher) =
     Inr ''0xa1c7bf3d421e8a54d39fbbe13f9f826e5b2c8e3d''"
  "to_checksum_address example_env (asset example_voucher) =
     Inr ''0x081827b8c3aa05287b5aa2bc3051fbe638f33152''"
  by (simp_all add: example_defs lower_eval)

text \<open>
  Claim C5. For a voucher \<open>v\<close> whose four addresses the normaliser accepts and whose
  \<open>value_aggregate\<close> is an integer literal, \<open>get_voucher_typed_data\<close> returns a structured
  message with
  \<^item> the domain \<open>name = "DeferredPaymentEscrow"\<close>, \<open>version = "1"\<close>, \<open>chainId\<close> the chain id
    of \<open>v\<close>, \<open>verifyingContract\<close> the normalised escrow of \<open>v\<close>, and nothing else;
  \<^item> the primary type \<open>Voucher\<close>, the only message type once \<open>EIP712Domain\<close> is set aside
    as the signer and the verifier do, with the fields \<open>id: bytes32\<close>, \<open>buyer: address\<close>,
    \<open>seller: address\<close>, \<open>valueAggregate: uint256\<close>, \<open>asset: address\<close>, \<open>timestamp: uint64\<close>,
    \<open>nonce: uint256\<close>, \<open>escrow: address\<close>, \<open>chainId: uint256\<close>, \<open>expiry: uint64\<close> in this
    order;
  \<^item> a message body with every field of \<open>v\<close>, where each of the four addresses is the
    output of the normaliser and \<open>valueAggregate\<close> is the integer value of the text.
  When the normaliser refuses an address or the amount is not an integer literal the
  function raises; the hypotheses exclude that.
\<close>

theorem get_voucher_typed_data_structure:
  assumes "to_checksum_address E (escrow v) = Inr e"
    and "to_checksum_address E (buyer v) = Inr b"
    and "to_checksum_address E (seller v) = Inr s"
    and "to_checksum_address E (asset v) = Inr a"
    and "py_int (value_aggregate v) = Inr va"
  shows "\<exists>td. get_voucher_typed_data E v = Inr td \<and>
           domain td =
             [(''name'', JStr ''DeferredPaymentEscrow''), (''version'', JStr ''1''),
              (''chainId'', JInt (chain_id v)), (''verifyingContract'', JStr e)] \<and>
           primaryType td = ''Voucher'' \<and>
           message_types td =
             [(''Voucher'',
                [(''id'', ''bytes32''), (''buyer'', ''address''), (''seller'', ''address''),
                 (''valueAggregate'', ''uint256''), (''asset'', ''address''),
                 (''timestamp'', ''uint64''), (''nonce'', ''uint256''),
                 (''escrow'', ''address''), (''chainId'', ''uint256''),
                 (''expiry'', ''uint64'')])] \<and>
           message td =
             [(''id'', JStr (voucher_id v)), (''buyer'', JStr b), (''seller'', JStr s),
              (''valueAggregate'', JInt va), (''asset'', JStr a),
              (''timestamp'', JInt (timestamp v)), (''nonce'', JInt (nonce v)),
              (''escrow'', JStr e), (''chainId'', JInt (chain_id v)),
              (''expiry'', JInt (expiry v))]"
  using assms
  by (simp add: get_voucher_typed_data_def message_types_def eip712_types_def)

theorem get_voucher_typed_data_structure_witness:
  "\<exists>td. get_voucher_typed_data example_env example_voucher = Inr td \<and>
     domain td =
       [(''name'', JStr ''DeferredPaymentEscrow''), (''version'', JStr ''1''),
        (''chainId'', JInt 84532),
        (''verifyingContract'', JStr ''0x7cb1a5a2a2c9e91b76914c0a7b7fb3aeff3bca27'')] \<and>
     map fst (message_types td) = [''Voucher''] \<and>
     map fst (message td) =
       [''id'', ''buyer'', ''seller'', ''valueAggregate'', ''asset'', ''timestamp'', ''nonce'',
        ''escrow'', ''chainId'', ''expiry''] \<and>
     map_of (message td) ''valueAggregate'' = Some (JInt 18446744073709551616) \<and>
     map_of (message td) ''seller'' = Some (JStr ''0xa1c7bf3d421e8a54d39fbbe13f9f826e5b2c8e3d'')"
proof -
  have c: "chain_id example_voucher = 84532"
    by (simp add: example_defs)
  show ?thesis
    using get_voucher_typed_data_structure [OF example_normalised example_amounts(2)]
    unfolding c by auto
qed

subsection \<open>Verification of a voucher signature\<close>

text \<open>
  The example voucher with another amount: the buyer's signature over the example voucher
  is not a signature over this one.
\<close>

definition example_raised_voucher :: voucher where
  "example_raised_voucher = example_voucher\<lparr>value_aggregate := ''18446744073709551617''\<rparr>"

definition example_raised_typed :: typed_data where
  "example_raised_typed =
     example_typed\<lparr>message :=
       [(''id'', JStr ''0x1111111111111111111111111111111111111111111111111111111111111111''),
        (''buyer'', JStr ''0x209693bc6afc0c5328ba36faf03c514ef312287c''),
        (''seller'', JStr ''0xa1c7bf3d421e8a54d39fbbe13f9f826e5b2c8e3d''),
        (''valueAggregate'', JInt 18446744073709551617),
        (''asset'', JStr ''0x081827b8c3aa05287b5aa2bc3051fbe638f33152''),
        (''timestamp'', JInt 1699999900), (''nonce'', JInt 1),
        (''escrow'', JStr ''0x7cb1a5a2a2c9e91b76914c0a7b7fb3aeff3bca27''),
        (''chainId'', JInt 84532), (''expiry'', JInt 1702591900)]\<rparr>"

definition example_raised_message :: string where
  "example_raised_message =
     example_encode (domain example_raised_typed) (message_types example_raised_typed)
       (message example_raised_typed)"

lemma example_raised_typed_data:
  "get_voucher_typed_data example_env example_raised_voucher = Inr example_raised_typed"
  by (simp add: get_voucher_typed_data_def example_raised_typed_def example_typed_def
      example_raised_voucher_def example_defs int_eval lower_eval)

lemma example_raised_encoded:
  "encode_typed_data example_env (domain example_raised_typed)
     (message_types example_raised_typed) (message example_raised_typed) =
     Inr example_raised_message"
  by (simp add: example_env_def example_raised_message_def)

lemma example_messages_differ:
  "example_message \<noteq> example_raised_message"
  by (simp add: example_message_def example_raised_message_def example_raised_typed_def
      example_typed_def example_encode_def render_entries_def render_value_def str_eval)

lemma example_raised_recover:
  "recover_message example_env example_raised_message example_signature =
     Inr ''0x0000000000000000000000000000000000000000''"
  using example_messages_differ
  by (simp add: example_env_def example_signature_def example_buyer_def)

text \<open>
  Claim C3. Let \<open>td\<close> be the typed data of the voucher \<open>v\<close> and \<open>m\<close> the message that the
  encoder makes of the domain of \<open>td\<close>, of its types without \<open>EIP712Domain\<close> and of its
  message body.
  \<^item> When the recovery of the signer from \<open>m\<close> and a signature returns an address \<open>r\<close> (the
    signature is well formed), \<open>verify_voucher\<close> returns a boolean and does not raise: the
    result is the comparison of \<open>r\<close> with the claimed signer after both are put in lower
    case.
  \<^item> When the account \<open>K\<close> signs \<open>m\<close> with the signature \<open>s\<close>, \<open>sign_voucher\<close> returns \<open>s\<close>
    with the prefix \<open>0x\<close>; when the recovery from \<open>m\<close> and this signature returns the
    address \<open>addr\<close> of \<open>K\<close>, \<open>verify_voucher\<close> on the voucher and the signature returns true
    for \<open>addr\<close>, and false for every claimed signer that differs from \<open>addr\<close> in more than
    the case of its letters.
  \<^item> When \<open>sign_voucher\<close> with the account \<open>K\<close> returns a signature for \<open>v\<close> and the signer
    and the recovery keep their contract for \<open>K\<close> (the recovery from any message and the
    signature of \<open>K\<close> over it, with its prefix, returns \<open>addr\<close>), \<open>verify_voucher\<close> on \<open>v\<close>
    and that signature returns the comparison of \<open>addr\<close> with the claimed signer.
  In the witness the test signer signs the example voucher: the signature verifies for the
  signer's address, in any case of its letters, and for no other address, and it does not
  verify for the same voucher with another amount.
\<close>

theorem verify_voucher_of_signed_voucher:
  assumes "get_voucher_typed_data E v = Inr td"
    and "encode_typed_data E (domain td) (message_types td) (message td) = Inr m"
  shows "(recover_message E m sg = Inr r \<longrightarrow>
            verify_voucher E v sg signer = Inr (py_lower r = py_lower signer)) \<and>
         (sign_message E K m = Inr s \<and>
          sg' = (if take 2 s = ''0x'' then s else ''0x'' @ s) \<and>
          recover_message E m sg' = Inr addr \<longrightarrow>
            sign_voucher E K v = Inr sg' \<and>
            verify_voucher E v sg' signer = Inr (py_lower addr = py_lower signer) \<and>
            verify_voucher E v sg' addr = Inr True \<and>
            (py_lower signer \<noteq> py_lower addr \<longrightarrow> verify_voucher E v sg' signer = Inr False)) \<and>
         (sign_voucher E K v = Inr sg'' \<and>
          (\<forall>m' s'. sign_message E K m' = Inr s' \<longrightarrow>
             recover_message E m' (if take 2 s' = ''0x'' then s' else ''0x'' @ s') = Inr addr') \<longrightarrow>
            verify_voucher E v sg'' signer = Inr (py_lower addr' = py_lower signer))"
proof -
  have m: "signable_message E v = Inr m"
    using assms by (simp add: signable_message_def)
  have 1: "recover_message E m sg = Inr r \<longrightarrow>
      verify_voucher E v sg signer = Inr (py_lower r = py_lower signer)"
    by (simp add: verify_voucher_def m)
  have 2: "sign_message E K m = Inr s \<and>
          sg' = (if take 2 s = ''0x'' then s else ''0x'' @ s) \<and>
          recover_message E m sg' = Inr addr \<longrightarrow>
            sign_voucher E K v = Inr sg' \<and>
            verify_voucher E v sg' signer = Inr (py_lower addr = py_lower signer) \<and>
            verify_voucher E v sg' addr = Inr True \<and>
            (py_lower signer \<noteq> py_lower addr \<longrightarrow> verify_voucher E v sg' signer = Inr False)"
    by (auto simp: verify_voucher_def sign_voucher_def m)
  have 3: "sign_voucher E K v = Inr sg'' \<and>
          (\<forall>m' s'. sign_message E K m' = Inr s' \<longrightarrow>
             recover_message E m' (if take 2 s' = ''0x'' then s' else ''0x'' @ s') = Inr addr') \<longrightarrow>
            verify_voucher E v sg'' signer = Inr (py_lower addr' = py_lower signer)"
  proof (intro impI, elim conjE)
    assume sv: "sign_voucher E K v = Inr sg''"
      and c: "\<forall>m' s'. sign_message E K m' = Inr s' \<longrightarrow>
             recover_message E m' (if take 2 s' = ''0x'' then s' else ''0x'' @ s') = Inr addr'"
    from sv obtain s' where s': "sign_message E K m = Inr s'"
      and sg: "sg'' = (if take 2 s' = ''0x'' then s' else ''0x'' @ s')"
      by (cases "sign_message E K m") (auto simp: sign_voucher_def m)
    from c s' sg have "recover_message E m sg'' = Inr addr'"
      by simp
    then show "verify_voucher E v sg'' signer = Inr (py_lower addr' = py_lower signer)"
      by (simp add: verify_voucher_def m)
  qed
  from 1 2 3 show ?thesis
    by blast
qed

theorem verify_voucher_of_signed_voucher_witness:
  "sign_voucher example_env example_buyer example_voucher = Inr example_signature \<and>
   verify_voucher example_env example_voucher example_signature example_buyer = Inr True \<and>
   verify_voucher example_env example_voucher example_signature
     ''0X209693BC6AFC0C5328BA36FAF03C514EF312287C'' = Inr True \<and>
   verify_voucher example_env example_voucher example_signature example_other_buyer =
     Inr False \<and>
   verify_voucher example_env example_raised_voucher example_signature example_buyer =
     Inr False"
proof -
  have 1: "py_lower example_other_buyer \<noteq> py_lower example_buyer"
    by (simp add: example_other_buyer_def example_defs lower_eval)
  have 2: "py_lower example_buyer = py_lower ''0X209693BC6AFC0C5328BA36FAF03C514EF312287C''"
    by (simp add: example_defs lower_eval)
  have 3: "py_lower ''0x0000000000000000000000000000000000000000'' \<noteq> py_lower example_buyer"
    by (simp add: example_defs lower_eval)
  have 4: "example_signature =
      (if take 2 example_signature = ''0x'' then example_signature
       else ''0x'' @ example_signature)"
    by (simp add: example_signed)
  note facts = example_signed(1) 4 example_recover
  have a: "sign_voucher example_env example_buyer example_voucher = Inr example_signature \<and>
      verify_voucher example_env example_voucher example_signature example_buyer = Inr True \<and>
      verify_voucher example_env example_voucher example_signature example_other_buyer =
        Inr False"
    using
      verify_voucher_of_signed_voucher [OF example_typed_data example_encoded,
        where sg = example_signature and r = example_buyer and K = example_buyer
          and s = example_signature and sg' = example_signature and addr = example_buyer
          and signer = example_other_buyer and sg'' = example_signature
          and addr' = example_buyer]
      1 facts
    by blast
  have b: "verify_voucher example_env example_voucher example_signature
      ''0X209693BC6AFC0C5328BA36FAF03C514EF312287C'' = Inr True"
    using
      verify_voucher_of_signed_voucher [OF example_typed_data example_encoded,
        where sg = example_signature and r = example_buyer and K = example_buyer
          and s = example_signature and sg' = example_signature and addr = example_buyer
          and signer = "''0X209693BC6AFC0C5328BA36FAF03C514EF312287C''"
          and sg'' = example_signature and addr' = example_buyer]
      2 facts
    by simp
  have c: "verify_voucher example_env example_raised_voucher example_signature example_buyer =
      Inr False"
    using
      verify_voucher_of_signed_voucher [OF example_raised_typed_data example_raised_encoded,
        where sg = example_signature and r = "''0x0000000000000000000000000000000000000000''"
          and K = example_buyer and s = example_signature and sg' = example_signature
          and addr = example_buyer and signer = example_buyer
          and sg'' = example_signature and addr' = example_buyer]
      3 example_raised_recover
    by simp
  from a b c show ?thesis
    by simp
qed

subsection \<open>A new voucher\<close>

text \<open>The requirements of the test suite for a new voucher.\<close>

definition example_new :: payment_requirements where
  "example_new =
     \<lparr>network = ''base-sepolia'', max_amount_required = ''1000000000000000000'',
      pay_to = ''0xA1c7Bf3d421e8A54D39FbBE13f9f826E5B2C8e3D'',
      req_asset = ''0x081827b8c3aa05287b5aa2bc3051fbe638f33152'',
      extra = Some [(''type'', JStr ''new''),
                    (''voucher'',
                       JObj [(''id'', JStr ''0x1111111111111111111111111111111111111111111111111111111111111111''),
                             (''escrow'', JStr ''0x7cB1A5A2a2C9e91B76914C0A7b7Fb3AefF3BCA27'')])]\<rparr>"

lemma create_new_voucher_Inr_iff:
  "create_new_voucher E clk b req = Inr v \<longleftrightarrow>
     (\<exists>vd i e1 bn s a e c.
        parse_new_voucher_extra (extra req) = Some vd \<and>
        lookup vd ''id'' = Some (JStr i) \<and> lookup vd ''escrow'' = Some (JStr e1) \<and>
        to_checksum_address E b = Inr bn \<and>
        to_checksum_address E (pay_to req) = Inr s \<and>
        to_checksum_address E (req_asset req) = Inr a \<and>
        to_checksum_address E e1 = Inr e \<and>
        get_chain_id E (network req) = Inr c \<and>
        v = \<lparr>voucher_id = i, buyer = bn, seller = s,
             value_aggregate = max_amount_required req, asset = a,
             timestamp = clk 0, nonce = 0, escrow = e, chain_id = c,
             expiry = clk 1 + EXPIRY_TIME\<rparr>)"
  unfolding create_new_voucher_def
  by (auto simp: bindE_eq_Inr dict_get_def as_str_def split: option.splits json.splits)

lemma example_new_voucher:
  "create_new_voucher example_env example_clock example_buyer example_new =
     Inr \<lparr>voucher_id = ''0x1111111111111111111111111111111111111111111111111111111111111111'',
          buyer = ''0x209693bc6afc0c5328ba36faf03c514ef312287c'',
          seller = ''0xa1c7bf3d421e8a54d39fbbe13f9f826e5b2c8e3d'',
          value_aggregate = ''1000000000000000000'',
          asset = ''0x081827b8c3aa05287b5aa2bc3051fbe638f33152'',
          timestamp = 1700000000, nonce = 0,
          escrow = ''0x7cb1a5a2a2c9e91b76914c0a7b7fb3aeff3bca27'',
          chain_id = 84532, expiry = 1702592001\<rparr>"
  by (simp add: create_new_voucher_def parse_new_voucher_extra_def example_new_def dict_eval
      example_defs lower_eval EXPIRY_TIME_def)

text \<open>
  Claim C6. \<open>create_new_voucher\<close> reads the clock once for \<open>timestamp\<close> and a second time
  for \<open>expiry\<close>, so \<open>expiry\<close> is the second reading plus 30 days. With the example clock,
  whose second reading is one second after the first, the voucher returned for the
  requirements of the test suite has nonce 0 and the amount as supplied, and its expiry is
  2592001 seconds after its timestamp, not 2592000. \<open>aggregate_voucher\<close> reads the clock once
  and uses the one reading for both fields.
\<close>

theorem create_new_voucher_reads_clock_twice:
  "\<exists>v. create_new_voucher example_env example_clock example_buyer example_new = Inr v \<and>
        nonce v = 0 \<and> value_aggregate v = max_amount_required example_new \<and>
        timestamp v = 1700000000 \<and> expiry v = 1702592001 \<and>
        expiry v - timestamp v = 2592001"
  unfolding example_new_voucher by (simp add: example_new_def)

subsection \<open>Requirements with a malformed extra payload\<close>

definition example_no_extra :: payment_requirements where
  "example_no_extra = example_new\<lparr>extra := None\<rparr>"

definition example_no_type :: payment_requirements where
  "example_no_type =
     example_new\<lparr>extra := Some [(''voucher'', JObj [(''id'', JStr ''0x11''), (''escrow'', JStr ''0x7c'')])]\<rparr>"

definition example_other_type :: payment_requirements where
  "example_other_type = example_new\<lparr>extra := Some [(''type'', JStr ''exact'')]\<rparr>"

definition example_no_escrow :: payment_requirements where
  "example_no_escrow =
     example_new\<lparr>extra := Some [(''type'', JStr ''new''), (''voucher'', JObj [(''id'', JStr ''0x11'')])]\<rparr>"

text \<open>
  Claim C9. \<open>prepare_payment_header\<close> raises the ValueError of line 39
  (\<open>MalformedRequirements None\<close>) when \<open>extra\<close> is missing or empty or has no key \<open>type\<close>,
  and the ValueError of line 48 (\<open>MalformedRequirements (Some t)\<close>) when the type \<open>t\<close> is
  neither \<open>"new"\<close> nor \<open>"aggregation"\<close>. \<open>create_new_voucher\<close>, called on such requirements,
  fails as well: the payload is not a seed of a new voucher, and the function raises its one
  ValueError, that of line 69. It raises the same error, alone or reached through
  \<open>prepare_payment_header\<close>, when the payload has the type \<open>"new"\<close> and its voucher lacks
  \<open>id\<close> or \<open>escrow\<close>: this is the failure the taxonomy calls \<open>InvalidVoucherSeed\<close>. No
  voucher and no header is returned in any of these cases.
\<close>

theorem malformed_extra_is_refused:
  "(extra req = None \<or> extra req = Some [] \<or>
      (extra req = Some d \<and> lookup d ''type'' = None) \<longrightarrow>
        prepare_payment_header E clk b ver req = Inl (MalformedRequirements None) \<and>
        create_new_voucher E clk b req = Inl InvalidNewVoucherExtra) \<and>
   (extra req = Some d \<and> lookup d ''type'' = Some t \<and>
      t \<noteq> JStr ''new'' \<and> t \<noteq> JStr ''aggregation'' \<longrightarrow>
        prepare_payment_header E clk b ver req = Inl (MalformedRequirements (Some t)) \<and>
        create_new_voucher E clk b req = Inl InvalidNewVoucherExtra) \<and>
   (extra req = Some d \<and> lookup d ''type'' = Some (JStr ''new'') \<and>
      lookup d ''voucher'' = Some (JObj vd) \<and>
      (lookup vd ''id'' = None \<or> lookup vd ''escrow'' = None) \<longrightarrow>
        create_new_voucher E clk b req = Inl InvalidNewVoucherExtra \<and>
        prepare_payment_header E clk b ver req = Inl InvalidNewVoucherExtra)"
  by (auto simp: prepare_payment_header_def create_new_voucher_def parse_new_voucher_extra_def
      lookup_def get_str_def)

theorem malformed_extra_is_refused_witness:
  "prepare_payment_header example_env example_clock example_buyer 1 example_no_extra =
     Inl (MalformedRequirements None) \<and>
   create_new_voucher example_env example_clock example_buyer example_no_extra =
     Inl InvalidNewVoucherExtra \<and>
   prepare_payment_header example_env example_clock example_buyer 1 example_no_type =
     Inl (MalformedRequirements None) \<and>
   prepare_payment_header example_env example_clock example_buyer 1 example_other_type =
     Inl (MalformedRequirements (Some (JStr ''exact''))) \<and>
   create_new_voucher example_env example_clock example_buyer example_no_escrow =
     Inl InvalidNewVoucherExtra \<and>
   prepare_payment_header example_env example_clock example_buyer 1 example_no_escrow =
     Inl InvalidNewVoucherExtra"
  using
    malformed_extra_is_refused [of example_no_extra _ example_env example_clock example_buyer 1]
    malformed_extra_is_refused [of example_no_type
      "[(''voucher'', JObj [(''id'', JStr ''0x11''), (''escrow'', JStr ''0x7c'')])]"
      example_env example_clock example_buyer 1]
    malformed_extra_is_refused [of example_other_type "[(''type'', JStr ''exact'')]"
      example_env example_clock example_buyer 1 "JStr ''exact''"]
    malformed_extra_is_refused [of example_no_escrow
      "[(''type'', JStr ''new''), (''voucher'', JObj [(''id'', JStr ''0x11'')])]"
      example_env example_clock example_buyer 1 _ "[(''id'', JStr ''0x11'')]"]
  by (simp add: example_no_extra_def example_no_type_def example_other_type_def
      example_no_escrow_def lookup_def)

subsection \<open>What \<open>sign_payment_header\<close> does to the header it is given\<close>


















subsection \<open>The base64 helpers are inverse to each other\<close>

lemma of_char_less_256: "(of_char c :: nat) < 256"
proof -
  have "(of_char c :: nat) mod 256 = of_char c" by simp
  then show ?thesis by (metis mod_less_divisor zero_less_numeral)
qed

lemma b64_val_char: "n < 64 \<Longrightarrow> b64_val (b64_char n) = Some n"
  by (auto simp: b64_val_def b64_char_def Let_def)

lemma b64_sextets:
  assumes "a < 256" "b < 256" "c < (256 :: nat)"
  shows "a div 4 < 64" "(a mod 4) * 16 + b div 16 < 64" "(b mod 16) * 4 + c div 64 < 64"
    "c mod 64 < 64" "(b mod 16) * 4 < 64" "(a mod 4) * 16 < 64"
  using assms by auto

lemma b64_byte1:
  fixes a b :: nat
  assumes "b < 256"
  shows "a div 4 * 4 + ((a mod 4) * 16 + b div 16) div 16 = a"
proof -
  have "b div 16 < 16" using assms by auto
  then have "((a mod 4) * 16 + b div 16) div 16 = a mod 4" by simp
  then show ?thesis by simp
qed

lemma b64_byte2:
  fixes a b c :: nat
  assumes "b < 256" "c < 256"
  shows "(((a mod 4) * 16 + b div 16) mod 16) * 16 + ((b mod 16) * 4 + c div 64) div 4 = b"
proof -
  have 1: "b div 16 < 16" using assms by auto
  have 2: "c div 64 < 4" using assms by auto
  have "((a mod 4) * 16 + b div 16) mod 16 = b div 16" using 1 by simp
  moreover have "((b mod 16) * 4 + c div 64) div 4 = b mod 16" using 2 by simp
  ultimately show ?thesis by simp
qed

lemma b64_byte3:
  fixes b c :: nat
  assumes "c < 256"
  shows "(((b mod 16) * 4 + c div 64) mod 4) * 64 + c mod 64 = c"
proof -
  have 2: "c div 64 < 4" using assms by auto
  have "((b mod 16) * 4 + c div 64) mod 4 = c div 64" using 2 by simp
  then show ?thesis by simp
qed

lemma b64_decode_encode:
  "\<forall>b \<in> set bs. b < 256 \<Longrightarrow> b64_decode (b64_encode bs) = Some bs"
proof (induction bs rule: b64_encode.induct)
  case (1 a b c bs)
  then have lt: "a < 256" "b < 256" "c < 256" and rest: "b64_decode (b64_encode bs) = Some bs"
    by auto
  show ?case
    using rest b64_byte1 [OF lt(2), of a] b64_byte2 [OF lt(2) lt(3), of a] b64_byte3 [OF lt(3), of b]
    by (simp add: b64_val_char b64_sextets [OF lt])
next
  case (2 a b)
  then have lt: "a < 256" "b < 256" by auto
  have z: "(0 :: nat) < 256" by simp
  show ?case
    using b64_byte1 [OF lt(2), of a] b64_byte2 [OF lt(2) z, of a]
    by (simp add: b64_val_char b64_sextets [OF lt z])
next
  case (3 a)
  then have lt: "a < 256" by auto
  have z: "(0 :: nat) < 256" by simp
  show ?case
    using b64_byte1 [OF z, of a]
    by (simp add: b64_val_char b64_sextets [OF lt z z])
next
  case 4
  show ?case by simp
qed

lemma utf8_encode_bytes: "b \<in> set (utf8_encode s) \<Longrightarrow> b < 256"
proof -
  have 1: "(of_char c :: nat) div 64 < 4" for c
    using of_char_less_256 [of c] by (simp add: less_mult_imp_div_less)
  have 2: "192 + (of_char c :: nat) div 64 < 256" for c
    using 1 [of c] by linarith
  show "b \<in> set (utf8_encode s) \<Longrightarrow> b < 256"
    using 2 by (auto simp: utf8_encode_def Let_def split: if_splits)
qed

lemma utf8_decode_encode: "utf8_decode (utf8_encode s) = Inr s"
proof (induction s)
  case Nil
  show ?case by (simp add: utf8_encode_def)
next
  case (Cons c s)
  let ?n = "of_char c :: nat"
  have tl: "utf8_encode (c # s) =
      (if ?n < 128 then [?n] else [192 + ?n div 64, 128 + ?n mod 64]) @ utf8_encode s"
    by (simp add: utf8_encode_def Let_def)
  show ?case
  proof (cases "?n < 128")
    case True
    then show ?thesis using Cons.IH by (simp add: tl)
  next
    case False
    have "?n div 64 < 4"
      using of_char_less_256 [of c] by (simp add: less_mult_imp_div_less)
    moreover have "128 div 64 \<le> ?n div 64"
      by (rule div_le_mono) (use False in simp)
    ultimately have d: "?n div 64 = 2 \<or> ?n div 64 = 3" by auto
    have v: "(192 + ?n div 64 - 192) * 64 + (128 + ?n mod 64 - 128) = ?n" by simp
    show ?thesis using False d Cons.IH v by (auto simp: tl)
  qed
qed

lemma safe_base64_decode_encode: "safe_base64_decode (safe_base64_encode s) = Inr s"
  using b64_decode_encode [of "utf8_encode s"] utf8_encode_bytes [of _ s]
  by (simp add: safe_base64_decode_def safe_base64_encode_def utf8_decode_encode)

end
